theory Spec2Isabelle
  imports Complex_Main
begin

chapter \<open>The model: the encoder's code as HOL definitions\<close>

section \<open>Errors raised by the encoder\<close>

text \<open>
  Every \<open>raise\<close>, failed \<open>assert\<close> and library error of the source is a value:
  a call returns \<open>error + 'a\<close>, with \<open>Inl\<close> carrying the exception.
\<close>

datatype error =
    AssertionError
  | NotImplementedError
  | ZeroDivisionError
  | ValueError
  | IndexError
  | RuntimeError
  | TypeError
  | KeyError

section \<open>Python arithmetic used by the constructors\<close>

text \<open>
  \<open>a or b\<close> on an \<open>Optional[int]\<close>: \<open>None\<close> and \<open>0\<close> are falsy.
\<close>

definition py_or :: "int option \<Rightarrow> int \<Rightarrow> int" where
  "py_or a b = (case a of None \<Rightarrow> b | Some v \<Rightarrow> if v = 0 then b else v)"

text \<open>
  \<open>int(x)\<close> on a float truncates toward zero. The quotient \<open>a / b\<close> of two Python
  ints is taken exactly here (as a real number); the float rounding of the source is
  not modelled.
\<close>

definition py_int :: "real \<Rightarrow> int" where
  "py_int x = (if x < 0 then - \<lfloor>- x\<rfloor> else \<lfloor>x\<rfloor>)"

section \<open>SwiGLU feed-forward widths\<close>

text \<open>
  \<open>SwiGLUFFNFused.__init__\<close>: the hidden width handed to the base class, from
  \<open>hidden_features = hidden_features or in_features\<close> and
  \<open>hidden_features = (int(hidden_features * 2 / 3) + 7) // 8 * 8\<close>.
\<close>

definition SwiGLUFFNFused_hidden_features :: "int \<Rightarrow> int option \<Rightarrow> int" where
  "SwiGLUFFNFused_hidden_features in_features hidden_features =
     (let hidden_features = py_or hidden_features in_features
      in (py_int (real_of_int (hidden_features * 2) / 3) + 7) div 8 * 8)"

section \<open>Tensor shapes\<close>

text \<open>
  The shape claims are settled on the shapes alone: a tensor is its shape, a list of
  dimension sizes, and every tensor operation of the source is its effect on the
  shape, failing where the library would fail.
\<close>

type_synonym shape = "nat list"

text \<open>\<open>x.flatten(start_dim)\<close>.\<close>

definition flatten_shape :: "nat \<Rightarrow> shape \<Rightarrow> shape" where
  "flatten_shape start_dim s = take start_dim s @ [prod_list (drop start_dim s)]"

text \<open>\<open>x.transpose(i, j)\<close>.\<close>

definition transpose_shape :: "nat \<Rightarrow> nat \<Rightarrow> shape \<Rightarrow> error + shape" where
  "transpose_shape i j s =
     (if i < length s \<and> j < length s then Inr (s[i := s ! j, j := s ! i]) else Inl IndexError)"

text \<open>\<open>x.reshape(target)\<close> with every size given: the element counts must agree.\<close>

definition reshape_shape :: "shape \<Rightarrow> shape \<Rightarrow> error + shape" where
  "reshape_shape target s = (if prod_list target = prod_list s then Inr target else Inl RuntimeError)"

text \<open>\<open>x.reshape(-1, rest)\<close>: the leading size is inferred from the element count.\<close>

definition reshape_infer_shape :: "shape \<Rightarrow> shape \<Rightarrow> error + shape" where
  "reshape_infer_shape rest s =
     (let k = prod_list rest; n = prod_list s
      in if k = 0 \<or> n mod k \<noteq> 0 then Inl RuntimeError else Inr ((n div k) # rest))"

text \<open>
  \<open>nn.Linear(in_features, out_features)\<close> and \<open>nn.LayerNorm(dim)\<close> act on the last
  dimension, which must have the configured size.
\<close>

definition Linear_shape :: "nat \<Rightarrow> nat \<Rightarrow> shape \<Rightarrow> error + shape" where
  "Linear_shape in_features out_features s =
     (if s \<noteq> [] \<and> last s = in_features then Inr (butlast s @ [out_features]) else Inl RuntimeError)"

definition LayerNorm_shape :: "nat \<Rightarrow> shape \<Rightarrow> error + shape" where
  "LayerNorm_shape d s = (if s \<noteq> [] \<and> last s = d then Inr s else Inl RuntimeError)"

text \<open>
  \<open>nn.Conv2d(in_chans, embed_dim, kernel_size, stride)\<close> without padding, on a
  batched image: the channel count must match and the kernel must fit in the image;
  each spatial size becomes \<open>(size - kernel) // stride + 1\<close>.
\<close>

definition Conv2d_shape :: "nat \<Rightarrow> nat \<Rightarrow> nat \<times> nat \<Rightarrow> nat \<times> nat \<Rightarrow> shape \<Rightarrow> error + shape" where
  "Conv2d_shape c_in c_out kernel_size stride s =
     (case s of
        [b, c, h, w] \<Rightarrow>
          if c \<noteq> c_in \<or> h < fst kernel_size \<or> w < snd kernel_size then Inl RuntimeError
          else Inr [b, c_out, (h - fst kernel_size) div fst stride + 1, (w - snd kernel_size) div snd stride + 1]
      | _ \<Rightarrow> Inl RuntimeError)"

section \<open>Patch embedding\<close>

text \<open>An \<open>img_size\<close> or \<open>patch_size\<close> argument: an int or a pair of ints.\<close>

datatype size_arg = Single nat | Pair nat nat

fun make_2tuple :: "size_arg \<Rightarrow> nat \<times> nat" where
  "make_2tuple (Pair a b) = (a, b)"
| "make_2tuple (Single x) = (x, x)"

record PatchEmbed =
  pe_img_size :: "nat \<times> nat"
  pe_patch_size :: "nat \<times> nat"
  pe_patches_resolution :: "nat \<times> nat"
  pe_num_patches :: nat
  pe_in_chans :: nat
  pe_embed_dim :: nat
  pe_flatten_embedding :: bool
  pe_norm :: bool

text \<open>
  \<open>PatchEmbed.__init__\<close>; \<open>norm_layer\<close> is whether a \<open>LayerNorm(embed_dim)\<close> is
  given (otherwise \<open>nn.Identity\<close>). The grid size divides by the patch size.
\<close>

definition PatchEmbed_init :: "size_arg \<Rightarrow> size_arg \<Rightarrow> nat \<Rightarrow> nat \<Rightarrow> bool \<Rightarrow> bool \<Rightarrow> error + PatchEmbed" where
  "PatchEmbed_init img_size patch_size in_chans embed_dim norm_layer flatten_embedding =
     (let image_hw = make_2tuple img_size;
          patch_hw = make_2tuple patch_size
      in if fst patch_hw = 0 \<or> snd patch_hw = 0 then Inl ZeroDivisionError
         else
           let patch_grid_size = (fst image_hw div fst patch_hw, snd image_hw div snd patch_hw)
           in Inr \<lparr> pe_img_size = image_hw,
                    pe_patch_size = patch_hw,
                    pe_patches_resolution = patch_grid_size,
                    pe_num_patches = fst patch_grid_size * snd patch_grid_size,
                    pe_in_chans = in_chans,
                    pe_embed_dim = embed_dim,
                    pe_flatten_embedding = flatten_embedding,
                    pe_norm = norm_layer \<rparr>)"

text \<open>\<open>PatchEmbed.forward\<close> on the shape of \<open>x\<close>.\<close>

definition PatchEmbed_forward :: "PatchEmbed \<Rightarrow> shape \<Rightarrow> error + shape" where
  "PatchEmbed_forward self x =
     (case x of
        [b, c, h, w] \<Rightarrow>
          let patch_h = fst (pe_patch_size self); patch_w = snd (pe_patch_size self)
          in if patch_h = 0 then Inl ZeroDivisionError
             else if h mod patch_h \<noteq> 0 then Inl AssertionError
             else if patch_w = 0 then Inl ZeroDivisionError
             else if w mod patch_w \<noteq> 0 then Inl AssertionError
             else
               (case Conv2d_shape (pe_in_chans self) (pe_embed_dim self)
                       (pe_patch_size self) (pe_patch_size self) x of
                  Inl e \<Rightarrow> Inl e
                | Inr x1 \<Rightarrow>
                    let h1 = x1 ! 2; w1 = x1 ! 3
                    in (case transpose_shape 1 2 (flatten_shape 2 x1) of
                          Inl e \<Rightarrow> Inl e
                        | Inr x2 \<Rightarrow>
                            (case (if pe_norm self then LayerNorm_shape (pe_embed_dim self) x2 else Inr x2) of
                               Inl e \<Rightarrow> Inl e
                             | Inr x3 \<Rightarrow>
                                 if \<not> pe_flatten_embedding self
                                 then reshape_infer_shape [h1, w1, pe_embed_dim self] x3
                                 else Inr x3)))
      | _ \<Rightarrow> Inl ValueError)"

section \<open>More shape operations\<close>

text \<open>
  Broadcasting of two shapes, aligned at the last dimension: sizes must be equal or
  one of them 1.
\<close>

fun broadcast_rev :: "shape \<Rightarrow> shape \<Rightarrow> error + shape" where
  "broadcast_rev [] ys = Inr ys"
| "broadcast_rev xs [] = Inr xs"
| "broadcast_rev (x # xs) (y # ys) =
     (if x = y \<or> y = 1 then
        (case broadcast_rev xs ys of Inl e \<Rightarrow> Inl e | Inr r \<Rightarrow> Inr (x # r))
      else if x = 1 then
        (case broadcast_rev xs ys of Inl e \<Rightarrow> Inl e | Inr r \<Rightarrow> Inr (y # r))
      else Inl RuntimeError)"

definition broadcast_shapes :: "shape \<Rightarrow> shape \<Rightarrow> error + shape" where
  "broadcast_shapes a b =
     (case broadcast_rev (rev a) (rev b) of Inl e \<Rightarrow> Inl e | Inr r \<Rightarrow> Inr (rev r))"

text \<open>\<open>torch.cat((a, b), dim=1)\<close> of two 3-D tensors.\<close>

definition cat1_shape :: "shape \<Rightarrow> shape \<Rightarrow> error + shape" where
  "cat1_shape a b =
     (case (a, b) of
        ([b1, n1, d1], [b2, n2, d2]) \<Rightarrow>
          if b1 = b2 \<and> d1 = d2 then Inr [b1, n1 + n2, d1] else Inl RuntimeError
      | _ \<Rightarrow> Inl RuntimeError)"

text \<open>\<open>x[:, start:stop]\<close> on a tensor with at least two dimensions.\<close>

definition slice1_shape :: "nat \<Rightarrow> nat option \<Rightarrow> shape \<Rightarrow> error + shape" where
  "slice1_shape start stop s =
     (case s of
        b # n # rest \<Rightarrow>
          let hi = (case stop of None \<Rightarrow> n | Some k \<Rightarrow> min k n)
          in Inr (b # (hi - min start n) # rest)
      | _ \<Rightarrow> Inl IndexError)"

text \<open>\<open>t.expand(b, -1, -1)\<close> of a parameter of shape \<open>[1, n, d]\<close>.\<close>

definition expand_batch_shape :: "nat \<Rightarrow> shape \<Rightarrow> error + shape" where
  "expand_batch_shape b s =
     (case s of [one, n, d] \<Rightarrow> if one = 1 \<or> one = b then Inr [b, n, d] else Inl RuntimeError
      | _ \<Rightarrow> Inl RuntimeError)"

section \<open>Attention, feed-forward and block shapes\<close>

datatype attn_class = Attention_class | MemEffAttention_class

record Attention =
  at_dim :: nat
  at_num_heads :: nat
  at_class :: attn_class

text \<open>
  \<open>Attention.__init__\<close>: \<open>head_dim = dim // num_heads\<close> and
  \<open>scale = head_dim ** -0.5\<close>, which both divide.
\<close>

definition Attention_init :: "attn_class \<Rightarrow> nat \<Rightarrow> nat \<Rightarrow> error + Attention" where
  "Attention_init cls dim' num_heads =
     (if num_heads = 0 then Inl ZeroDivisionError
      else if dim' div num_heads = 0 then Inl ZeroDivisionError
      else Inr \<lparr> at_dim = dim', at_num_heads = num_heads, at_class = cls \<rparr>)"

text \<open>\<open>Attention.forward\<close> on the shape \<open>[b_dim, n_dim, c_dim]\<close>.\<close>

definition Attention_forward_shape :: "Attention \<Rightarrow> shape \<Rightarrow> error + shape" where
  "Attention_forward_shape self x =
     (case x of
        [b_dim, n_dim, c_dim] \<Rightarrow>
          (case Linear_shape (at_dim self) (at_dim self * 3) x of
             Inl e \<Rightarrow> Inl e
           | Inr qkv0 \<Rightarrow>
               if at_num_heads self = 0 then Inl ZeroDivisionError
               else
                 (case reshape_shape [b_dim, n_dim, 3, at_num_heads self, c_dim div at_num_heads self] qkv0 of
                    Inl e \<Rightarrow> Inl e
                  | Inr _ \<Rightarrow>
                      let head_dim = c_dim div at_num_heads self;
                          attn_v = [b_dim, at_num_heads self, n_dim, head_dim]
                      in (case transpose_shape 1 2 attn_v of
                            Inl e \<Rightarrow> Inl e
                          | Inr t \<Rightarrow>
                              (case reshape_shape [b_dim, n_dim, c_dim] t of
                                 Inl e \<Rightarrow> Inl e
                               | Inr y \<Rightarrow> Linear_shape (at_dim self) (at_dim self) y))))
      | _ \<Rightarrow> Inl ValueError)"

text \<open>
  \<open>MemEffAttention.forward\<close> on shapes; \<open>xformers_available\<close> is the module flag
  \<open>XFORMERS_AVAILABLE\<close> and \<open>attn_bias\<close> says whether a bias was passed.
\<close>

definition MemEffAttention_forward_shape ::
    "bool \<Rightarrow> Attention \<Rightarrow> shape \<Rightarrow> bool \<Rightarrow> error + shape" where
  "MemEffAttention_forward_shape xformers_available self x attn_bias =
     (if \<not> xformers_available then
        (if attn_bias then Inl AssertionError else Attention_forward_shape self x)
      else
        (case x of
           [b_dim, n_dim, c_dim] \<Rightarrow>
             (case Linear_shape (at_dim self) (at_dim self * 3) x of
                Inl e \<Rightarrow> Inl e
              | Inr qkv0 \<Rightarrow>
                  if at_num_heads self = 0 then Inl ZeroDivisionError
                  else
                    (case reshape_shape [b_dim, n_dim, 3, at_num_heads self, c_dim div at_num_heads self] qkv0 of
                       Inl e \<Rightarrow> Inl e
                     | Inr _ \<Rightarrow>
                         (case reshape_shape [b_dim, n_dim, c_dim]
                                 [b_dim, n_dim, at_num_heads self, c_dim div at_num_heads self] of
                            Inl e \<Rightarrow> Inl e
                          | Inr y \<Rightarrow> Linear_shape (at_dim self) (at_dim self) y)))
         | _ \<Rightarrow> Inl ValueError))"

definition attn_forward_shape :: "bool \<Rightarrow> Attention \<Rightarrow> shape \<Rightarrow> error + shape" where
  "attn_forward_shape xformers_available self x =
     (case at_class self of
        Attention_class \<Rightarrow> Attention_forward_shape self x
      | MemEffAttention_class \<Rightarrow> MemEffAttention_forward_shape xformers_available self x False)"

text \<open>
  The feed-forward layers: \<open>Mlp\<close> (\<open>fc1\<close>, \<open>fc2\<close>) and \<open>SwiGLUFFN\<close> (\<open>w12\<close>, a
  split into two halves, \<open>w3\<close>), each holding the widths its \<open>__init__\<close> fixed.
\<close>

datatype ffn = Mlp nat nat nat | SwiGLUFFN nat nat nat

definition Mlp_init :: "int \<Rightarrow> int option \<Rightarrow> ffn" where
  "Mlp_init in_features hidden_features =
     Mlp (nat in_features) (nat (py_or hidden_features in_features)) (nat in_features)"

definition SwiGLUFFN_init :: "int \<Rightarrow> int option \<Rightarrow> ffn" where
  "SwiGLUFFN_init in_features hidden_features =
     SwiGLUFFN (nat in_features) (nat (py_or hidden_features in_features)) (nat in_features)"

definition SwiGLUFFNFused_init :: "int \<Rightarrow> int option \<Rightarrow> ffn" where
  "SwiGLUFFNFused_init in_features hidden_features =
     SwiGLUFFN_init in_features (Some (SwiGLUFFNFused_hidden_features in_features hidden_features))"

fun ffn_forward_shape :: "ffn \<Rightarrow> shape \<Rightarrow> error + shape" where
  "ffn_forward_shape (Mlp in_features hidden_features out_features) x =
     (case Linear_shape in_features hidden_features x of
        Inl e \<Rightarrow> Inl e
      | Inr h \<Rightarrow> Linear_shape hidden_features out_features h)"
| "ffn_forward_shape (SwiGLUFFN in_features hidden_features out_features) x =
     (case Linear_shape in_features (2 * hidden_features) x of
        Inl e \<Rightarrow> Inl e
      | Inr x12 \<Rightarrow> Linear_shape hidden_features out_features (butlast x12 @ [(last x12 + 1) div 2]))"

record Block =
  bk_dim :: nat
  bk_attn :: Attention
  bk_layer_scale :: bool
  bk_mlp :: ffn
  bk_sample_drop_ratio :: real

datatype ffn_class = Mlp_class | SwiGLUFFNFused_class

text \<open>
  \<open>Block.__init__\<close>, with \<open>mlp_hidden_dim = int(dim * mlp_ratio)\<close>; \<open>init_values\<close>
  is whether a truthy layer-scale value was given.
\<close>

definition Block_init ::
    "nat \<Rightarrow> nat \<Rightarrow> real \<Rightarrow> bool \<Rightarrow> real \<Rightarrow> attn_class \<Rightarrow> ffn_class \<Rightarrow> error + Block" where
  "Block_init dim' num_heads mlp_ratio init_values drop_path attn_cls ffn_layer =
     (case Attention_init attn_cls dim' num_heads of
        Inl e \<Rightarrow> Inl e
      | Inr attn \<Rightarrow>
          let mlp_hidden_dim = py_int (real dim' * mlp_ratio)
          in Inr \<lparr> bk_dim = dim',
                   bk_attn = attn,
                   bk_layer_scale = init_values,
                   bk_mlp = (case ffn_layer of
                               Mlp_class \<Rightarrow> Mlp_init (int dim') (Some mlp_hidden_dim)
                             | SwiGLUFFNFused_class \<Rightarrow> SwiGLUFFNFused_init (int dim') (Some mlp_hidden_dim)),
                   bk_sample_drop_ratio = drop_path \<rparr>)"

text \<open>
  One residual stage \<open>x + ls(f(norm(x)))\<close> on shapes. The three branches of
  \<open>Block.forward\<close> (index-add stochastic depth, drop path, plain sum) differ in
  values only: each adds a residual of the shape of \<open>x\<close>.
\<close>

definition residual_shape ::
    "nat \<Rightarrow> bool \<Rightarrow> (shape \<Rightarrow> error + shape) \<Rightarrow> shape \<Rightarrow> error + shape" where
  "residual_shape dim' layer_scale f x =
     (case LayerNorm_shape dim' x of
        Inl e \<Rightarrow> Inl e
      | Inr n \<Rightarrow>
          (case f n of
             Inl e \<Rightarrow> Inl e
           | Inr r \<Rightarrow>
               (case (if layer_scale then broadcast_shapes r [dim'] else Inr r) of
                  Inl e \<Rightarrow> Inl e
                | Inr r1 \<Rightarrow> broadcast_shapes x r1)))"

definition Block_forward_shape :: "bool \<Rightarrow> Block \<Rightarrow> shape \<Rightarrow> error + shape" where
  "Block_forward_shape xformers_available self x =
     (case residual_shape (bk_dim self) (bk_layer_scale self)
             (attn_forward_shape xformers_available (bk_attn self)) x of
        Inl e \<Rightarrow> Inl e
      | Inr x1 \<Rightarrow>
          residual_shape (bk_dim self) (bk_layer_scale self) (ffn_forward_shape (bk_mlp self)) x1)"

section \<open>The block sequence and its chunks\<close>

text \<open>
  An entry of a \<open>BlockChunk\<close> is a transformer block or the \<open>nn.Identity()\<close>
  placeholder. \<open>self.blocks\<close> is a list of chunks (\<open>chunked_blocks = True\<close>) or the
  plain list of blocks. Blocks are kept abstract (\<open>'b\<close>); \<open>run\<close> gives a block's
  forward on a value of type \<open>'x\<close>, which may fail.
\<close>

datatype 'b module = Identity | Blk 'b

datatype 'b blocks = ChunkedBlocks "'b module list list" | PlainBlocks "'b list"

fun chunked_blocks :: "'b blocks \<Rightarrow> bool" where
  "chunked_blocks (ChunkedBlocks _) = True"
| "chunked_blocks (PlainBlocks _) = False"

text \<open>Python's \<open>range(i, stop, step)\<close> for a positive step.\<close>

function range_step :: "nat \<Rightarrow> nat \<Rightarrow> nat \<Rightarrow> nat list" where
  "range_step i stop step =
     (if step = 0 \<or> stop \<le> i then [] else i # range_step (i + step) stop step)"
  by pat_completeness auto
termination
  by (relation "measure (\<lambda>(i, stop, step). stop - i)") auto

declare range_step.simps [simp del]

text \<open>
  The chunking of \<open>VisionTransformer.__init__\<close>:
  \<open>chunksize = depth // block_chunks\<close>, and for every \<open>i\<close> of
  \<open>range(0, depth, chunksize)\<close> the chunk
  \<open>[nn.Identity()] * i + blocks_list[i : i + chunksize]\<close>. A chunk size of 0 makes
  \<open>range\<close> raise.
\<close>

definition make_chunk :: "nat \<Rightarrow> 'b list \<Rightarrow> nat \<Rightarrow> 'b module list" where
  "make_chunk chunksize blocks_list i =
     replicate i Identity @ map Blk (take chunksize (drop i blocks_list))"

definition chunk_blocks :: "nat \<Rightarrow> nat \<Rightarrow> 'b list \<Rightarrow> error + 'b module list list" where
  "chunk_blocks depth block_chunks blocks_list =
     (let chunksize = depth div block_chunks
      in if chunksize = 0 then Inl ValueError
         else Inr (map (make_chunk chunksize blocks_list) (range_step 0 depth chunksize)))"

definition make_blocks :: "nat \<Rightarrow> int \<Rightarrow> 'b list \<Rightarrow> error + 'b blocks" where
  "make_blocks depth block_chunks blocks_list =
     (if block_chunks > 0 then
        (case chunk_blocks depth (nat block_chunks) blocks_list of
           Inl e \<Rightarrow> Inl e
         | Inr chunked \<Rightarrow> Inr (ChunkedBlocks chunked))
      else Inr (PlainBlocks blocks_list))"

fun module_forward :: "('b \<Rightarrow> 'x \<Rightarrow> error + 'x) \<Rightarrow> 'b module \<Rightarrow> 'x \<Rightarrow> error + 'x" where
  "module_forward run Identity x = Inr x"
| "module_forward run (Blk b) x = run b x"

text \<open>\<open>BlockChunk.forward\<close>: \<open>for b in self: x = b(x)\<close>.\<close>

fun BlockChunk_forward :: "('b \<Rightarrow> 'x \<Rightarrow> error + 'x) \<Rightarrow> 'b module list \<Rightarrow> 'x \<Rightarrow> error + 'x" where
  "BlockChunk_forward run [] x = Inr x"
| "BlockChunk_forward run (b # bs) x =
     (case module_forward run b x of Inl e \<Rightarrow> Inl e | Inr y \<Rightarrow> BlockChunk_forward run bs y)"

text \<open>The loop \<open>for blk in self.blocks: x = blk(x)\<close> of \<open>forward_features\<close>.\<close>

fun run_chunks :: "('b \<Rightarrow> 'x \<Rightarrow> error + 'x) \<Rightarrow> 'b module list list \<Rightarrow> 'x \<Rightarrow> error + 'x" where
  "run_chunks run [] x = Inr x"
| "run_chunks run (c # cs) x =
     (case BlockChunk_forward run c x of Inl e \<Rightarrow> Inl e | Inr y \<Rightarrow> run_chunks run cs y)"

fun run_plain :: "('b \<Rightarrow> 'x \<Rightarrow> error + 'x) \<Rightarrow> 'b list \<Rightarrow> 'x \<Rightarrow> error + 'x" where
  "run_plain run [] x = Inr x"
| "run_plain run (b # bs) x =
     (case run b x of Inl e \<Rightarrow> Inl e | Inr y \<Rightarrow> run_plain run bs y)"

fun run_blocks :: "('b \<Rightarrow> 'x \<Rightarrow> error + 'x) \<Rightarrow> 'b blocks \<Rightarrow> 'x \<Rightarrow> error + 'x" where
  "run_blocks run (ChunkedBlocks cs) x = run_chunks run cs x"
| "run_blocks run (PlainBlocks bs) x = run_plain run bs x"

subsection \<open>Intermediate layers\<close>

text \<open>
  The argument \<open>n\<close> of \<open>get_intermediate_layers\<close>: an int (the \<open>n\<close> last blocks) or
  a sequence of block indices. \<open>blocks_to_take\<close> is
  \<open>range(total_block_len - n, total_block_len)\<close> or the sequence itself; the loops
  ask \<open>i in blocks_to_take\<close> and the final assertion its \<open>len\<close>.
\<close>

datatype layers_arg = LastN int | Layers "int list"

fun in_blocks_to_take :: "nat \<Rightarrow> layers_arg \<Rightarrow> nat \<Rightarrow> bool" where
  "in_blocks_to_take total_block_len (LastN n) i =
     (int total_block_len - n \<le> int i \<and> i < total_block_len)"
| "in_blocks_to_take total_block_len (Layers ns) i = (int i \<in> set ns)"

fun len_blocks_to_take :: "nat \<Rightarrow> layers_arg \<Rightarrow> nat" where
  "len_blocks_to_take total_block_len (LastN n) = nat n"
| "len_blocks_to_take total_block_len (Layers ns) = length ns"

text \<open>
  \<open>_get_intermediate_layers_not_chunked\<close>: the loop over \<open>enumerate(self.blocks)\<close>,
  from index \<open>i\<close> with the current \<open>x\<close> and \<open>output\<close>.
\<close>

fun not_chunked_loop ::
    "('b \<Rightarrow> 'x \<Rightarrow> error + 'x) \<Rightarrow> (nat \<Rightarrow> bool) \<Rightarrow> nat \<Rightarrow> 'b list \<Rightarrow> 'x \<Rightarrow> 'x list \<Rightarrow> error + 'x list" where
  "not_chunked_loop run take_i i [] x output = Inr output"
| "not_chunked_loop run take_i i (blk # blks) x output =
     (case run blk x of
        Inl e \<Rightarrow> Inl e
      | Inr y \<Rightarrow> not_chunked_loop run take_i (Suc i) blks y (if take_i i then output @ [y] else output))"

definition get_intermediate_layers_not_chunked ::
    "('b \<Rightarrow> 'x \<Rightarrow> error + 'x) \<Rightarrow> ('img \<Rightarrow> error + 'x) \<Rightarrow> 'b list \<Rightarrow> 'img \<Rightarrow> layers_arg \<Rightarrow> error + 'x list" where
  "get_intermediate_layers_not_chunked run prepare_tokens_with_masks blocks x n =
     (case prepare_tokens_with_masks x of
        Inl e \<Rightarrow> Inl e
      | Inr x0 \<Rightarrow>
          let total_block_len = length blocks
          in (case not_chunked_loop run (in_blocks_to_take total_block_len n) 0 blocks x0 [] of
                Inl e \<Rightarrow> Inl e
              | Inr output \<Rightarrow>
                  if length output = len_blocks_to_take total_block_len n then Inr output
                  else Inl AssertionError))"

text \<open>
  \<open>_get_intermediate_layers_chunked\<close>: the inner loop
  \<open>for blk in block_chunk[i:]\<close> and the outer loop over the chunks, on the state
  \<open>(i, x, output)\<close>.
\<close>

fun chunk_inner_loop ::
    "('b \<Rightarrow> 'x \<Rightarrow> error + 'x) \<Rightarrow> (nat \<Rightarrow> bool) \<Rightarrow> 'b module list \<Rightarrow> nat \<times> 'x \<times> 'x list
      \<Rightarrow> error + nat \<times> 'x \<times> 'x list" where
  "chunk_inner_loop run take_i [] st = Inr st"
| "chunk_inner_loop run take_i (blk # blks) (i, x, output) =
     (case module_forward run blk x of
        Inl e \<Rightarrow> Inl e
      | Inr y \<Rightarrow> chunk_inner_loop run take_i blks (Suc i, y, if take_i i then output @ [y] else output))"

fun chunk_outer_loop ::
    "('b \<Rightarrow> 'x \<Rightarrow> error + 'x) \<Rightarrow> (nat \<Rightarrow> bool) \<Rightarrow> 'b module list list \<Rightarrow> nat \<times> 'x \<times> 'x list
      \<Rightarrow> error + nat \<times> 'x \<times> 'x list" where
  "chunk_outer_loop run take_i [] st = Inr st"
| "chunk_outer_loop run take_i (block_chunk # chunks) (i, x, output) =
     (case chunk_inner_loop run take_i (drop i block_chunk) (i, x, output) of
        Inl e \<Rightarrow> Inl e
      | Inr st \<Rightarrow> chunk_outer_loop run take_i chunks st)"

definition get_intermediate_layers_chunked ::
    "('b \<Rightarrow> 'x \<Rightarrow> error + 'x) \<Rightarrow> ('img \<Rightarrow> error + 'x) \<Rightarrow> 'b module list list \<Rightarrow> 'img \<Rightarrow> layers_arg
      \<Rightarrow> error + 'x list" where
  "get_intermediate_layers_chunked run prepare_tokens_with_masks blocks x n =
     (case prepare_tokens_with_masks x of
        Inl e \<Rightarrow> Inl e
      | Inr x0 \<Rightarrow>
          if blocks = [] then Inl IndexError
          else
            let total_block_len = length (last blocks)
            in (case chunk_outer_loop run (in_blocks_to_take total_block_len n) blocks (0, x0, []) of
                  Inl e \<Rightarrow> Inl e
                | Inr (i, x1, output) \<Rightarrow>
                    if length output = len_blocks_to_take total_block_len n then Inr output
                    else Inl AssertionError))"

section \<open>The vision transformer\<close>

text \<open>
  \<open>int(math.sqrt(n))\<close> for a patch count \<open>n\<close>: the integer square root (the float
  rounding of \<open>math.sqrt\<close> is not modelled).
\<close>

fun isqrt :: "nat \<Rightarrow> nat" where
  "isqrt n =
     (if n < 2 then n
      else let r = 2 * isqrt (n div 4)
           in if (r + 1) * (r + 1) \<le> n then r + 1 else r)"

declare isqrt.simps [simp del]

text \<open>
  The keyword arguments of \<open>nn.functional.interpolate\<close>: a scale factor per
  spatial dimension, or the output size.
\<close>

datatype interp_arg = Scale_factor real real | Size nat nat

text \<open>
  \<open>nn.functional.interpolate\<close> on a 4-D shape: with a scale factor each output size
  is \<open>floor(input size * scale)\<close>; empty inputs and outputs are refused.
\<close>

definition interpolate_shape :: "shape \<Rightarrow> interp_arg \<Rightarrow> error + shape" where
  "interpolate_shape s kwargs =
     (case s of
        [b, c, h_in, w_in] \<Rightarrow>
          let out = (case kwargs of
                       Scale_factor sx sy \<Rightarrow> (\<lfloor>real h_in * sx\<rfloor>, \<lfloor>real w_in * sy\<rfloor>)
                     | Size a b \<Rightarrow> (int a, int b))
          in if h_in = 0 \<or> w_in = 0 \<or> fst out \<le> 0 \<or> snd out \<le> 0 then Inl RuntimeError
             else Inr [b, c, nat (fst out), nat (snd out)]
      | _ \<Rightarrow> Inl RuntimeError)"

text \<open>
  The model after \<open>__init__\<close>. Parameters are kept as their shapes; the blocks are
  of an abstract type \<open>'b\<close>.
\<close>

record 'b VisionTransformer =
  vt_embed_dim :: nat
  vt_n_blocks :: nat
  vt_num_heads :: nat
  vt_patch_size :: size_arg
  vt_num_register_tokens :: nat
  vt_interpolate_antialias :: bool
  vt_interpolate_offset :: real
  vt_patch_embed :: PatchEmbed
  vt_cls_token :: shape
  vt_pos_embed :: shape
  vt_register_tokens :: "shape option"
  vt_blocks :: "'b blocks"
  vt_mask_token :: shape

text \<open>The arguments of \<open>VisionTransformer.__init__\<close>.\<close>

record vit_args =
  arg_img_size :: size_arg
  arg_patch_size :: size_arg
  arg_in_chans :: nat
  arg_embed_dim :: nat
  arg_depth :: nat
  arg_num_heads :: nat
  arg_mlp_ratio :: real
  arg_drop_path_rate :: real
  arg_drop_path_uniform :: bool
  arg_init_values :: bool
  arg_attn_class :: attn_class
  arg_ffn_layer :: string
  arg_block_chunks :: int
  arg_num_register_tokens :: int
  arg_interpolate_antialias :: bool
  arg_interpolate_offset :: real

text \<open>The defaults of the signature, with \<open>block_fn=Block\<close>.\<close>

definition default_args :: vit_args where
  "default_args =
     \<lparr> arg_img_size = Single 224, arg_patch_size = Single 16, arg_in_chans = 3,
       arg_embed_dim = 768, arg_depth = 12, arg_num_heads = 12, arg_mlp_ratio = 4,
       arg_drop_path_rate = 0, arg_drop_path_uniform = False, arg_init_values = False,
       arg_attn_class = Attention_class, arg_ffn_layer = ''mlp'', arg_block_chunks = 1,
       arg_num_register_tokens = 0, arg_interpolate_antialias = False,
       arg_interpolate_offset = 1 / 10 \<rparr>"

text \<open>
  The stochastic depth decay rule: \<open>[drop_path_rate] * depth\<close>, or
  \<open>torch.linspace(0, drop_path_rate, depth)\<close>.
\<close>

definition dpr :: "vit_args \<Rightarrow> nat \<Rightarrow> real" where
  "dpr args i =
     (if arg_drop_path_uniform args then arg_drop_path_rate args
      else if arg_depth args \<le> 1 then 0
      else arg_drop_path_rate args * real i / real (arg_depth args - 1))"

text \<open>A list comprehension whose elements may raise: the first error wins.\<close>

fun sequence_results :: "(error + 'a) list \<Rightarrow> error + 'a list" where
  "sequence_results [] = Inr []"
| "sequence_results (r # rs) =
     (case r of
        Inl e \<Rightarrow> Inl e
      | Inr v \<Rightarrow> (case sequence_results rs of Inl e \<Rightarrow> Inl e | Inr vs \<Rightarrow> Inr (v # vs)))"

definition VisionTransformer_init :: "vit_args \<Rightarrow> error + Block VisionTransformer" where
  "VisionTransformer_init args =
     (case PatchEmbed_init (arg_img_size args) (arg_patch_size args) (arg_in_chans args)
             (arg_embed_dim args) False True of
        Inl e \<Rightarrow> Inl e
      | Inr patch_embed \<Rightarrow>
          let num_patches = pe_num_patches patch_embed
          in if \<not> arg_num_register_tokens args \<ge> 0 then Inl AssertionError
             else
               (case (if arg_ffn_layer args = ''mlp'' then Inr Mlp_class
                      else if arg_ffn_layer args = ''swiglufused'' \<or> arg_ffn_layer args = ''swiglu''
                      then Inr SwiGLUFFNFused_class
                      else Inl NotImplementedError) of
                  Inl e \<Rightarrow> Inl e
                | Inr ffn_layer \<Rightarrow>
                    (case sequence_results
                            (map (\<lambda>i. Block_init (arg_embed_dim args) (arg_num_heads args)
                                         (arg_mlp_ratio args) (arg_init_values args) (dpr args i)
                                         (arg_attn_class args) ffn_layer)
                                 [0 ..< arg_depth args]) of
                       Inl e \<Rightarrow> Inl e
                     | Inr blocks_list \<Rightarrow>
                         (case make_blocks (arg_depth args) (arg_block_chunks args) blocks_list of
                            Inl e \<Rightarrow> Inl e
                          | Inr blocks \<Rightarrow>
                              Inr \<lparr> vt_embed_dim = arg_embed_dim args,
                                    vt_n_blocks = arg_depth args,
                                    vt_num_heads = arg_num_heads args,
                                    vt_patch_size = arg_patch_size args,
                                    vt_num_register_tokens = nat (arg_num_register_tokens args),
                                    vt_interpolate_antialias = arg_interpolate_antialias args,
                                    vt_interpolate_offset = arg_interpolate_offset args,
                                    vt_patch_embed = patch_embed,
                                    vt_cls_token = [1, 1, arg_embed_dim args],
                                    vt_pos_embed = [1, num_patches + 1, arg_embed_dim args],
                                    vt_register_tokens =
                                      (if arg_num_register_tokens args \<noteq> 0
                                       then Some [1, nat (arg_num_register_tokens args), arg_embed_dim args]
                                       else None),
                                    vt_blocks = blocks,
                                    vt_mask_token = [1, arg_embed_dim args] \<rparr>))))"

text \<open>
  What \<open>interpolate_pos_encoding\<close> returns: the parameter \<open>self.pos_embed\<close> itself,
  or a freshly resampled table; each with its shape.
\<close>

datatype pos_encoding = PosEmbed shape | Resampled shape

fun pos_encoding_shape :: "pos_encoding \<Rightarrow> shape" where
  "pos_encoding_shape (PosEmbed s) = s"
| "pos_encoding_shape (Resampled s) = s"

text \<open>\<open>VisionTransformer.interpolate_pos_encoding\<close> on the shape of \<open>x\<close>.\<close>

definition interpolate_pos_encoding ::
    "'b VisionTransformer \<Rightarrow> shape \<Rightarrow> nat \<Rightarrow> nat \<Rightarrow> error + pos_encoding" where
  "interpolate_pos_encoding self x w h =
     (case (x, vt_pos_embed self) of
        ([b, n, dim'], [p1, pn, pd]) \<Rightarrow>
          let npatch = int n - 1;
              num_patches = int pn - 1
          in if npatch = num_patches \<and> w = h then Inr (PosEmbed (vt_pos_embed self))
             else if pn = 0 then Inl IndexError
             else
               (case vt_patch_size self of
                  Pair _ _ \<Rightarrow> Inl TypeError
                | Single p \<Rightarrow>
                    if p = 0 then Inl ZeroDivisionError
                    else
                      let w0 = w div p;
                          h0 = h div p;
                          num_patches_dim = isqrt (nat num_patches)
                      in if num_patches \<noteq> int (num_patches_dim * num_patches_dim)
                         then Inl AssertionError
                         else
                           (case (if vt_interpolate_offset self \<noteq> 0 then
                                    (if num_patches_dim = 0 then Inl ZeroDivisionError
                                     else Inr (Scale_factor
                                            ((real w0 + vt_interpolate_offset self) / real num_patches_dim)
                                            ((real h0 + vt_interpolate_offset self) / real num_patches_dim)))
                                  else Inr (Size w0 h0)) of
                              Inl e \<Rightarrow> Inl e
                            | Inr kwargs \<Rightarrow>
                                (case reshape_shape [1, num_patches_dim, num_patches_dim, dim']
                                        [p1, pn - 1, pd] of
                                   Inl e \<Rightarrow> Inl e
                                 | Inr _ \<Rightarrow>
                                     (case interpolate_shape [1, dim', num_patches_dim, num_patches_dim] kwargs of
                                        Inl e \<Rightarrow> Inl e
                                      | Inr patch_pos_embed \<Rightarrow>
                                          if (w0, h0) \<noteq> (patch_pos_embed ! 2, patch_pos_embed ! 3)
                                          then Inl AssertionError
                                          else if dim' = 0 then Inl RuntimeError
                                          else
                                            (case cat1_shape [1, 1, pd] [1, w0 * h0, dim'] of
                                               Inl e \<Rightarrow> Inl e
                                             | Inr r \<Rightarrow> Inr (Resampled r))))))
      | _ \<Rightarrow> Inl ValueError)"

text \<open>
  The steps of \<open>prepare_tokens_with_masks\<close>. \<open>masks\<close> is the shape of the boolean
  mask, if one is given: \<open>torch.where(masks.unsqueeze(-1), mask_token.unsqueeze(0), x)\<close>.
\<close>

definition apply_masks :: "'b VisionTransformer \<Rightarrow> shape option \<Rightarrow> shape \<Rightarrow> error + shape" where
  "apply_masks self masks x =
     (case masks of
        None \<Rightarrow> Inr x
      | Some m \<Rightarrow>
          (case broadcast_shapes (m @ [1]) (1 # vt_mask_token self) of
             Inl e \<Rightarrow> Inl e
           | Inr c \<Rightarrow> broadcast_shapes c x))"

text \<open>\<open>torch.cat((self.cls_token.expand(x.shape[0], -1, -1), x), dim=1)\<close>.\<close>

definition cat_cls_token :: "'b VisionTransformer \<Rightarrow> shape \<Rightarrow> error + shape" where
  "cat_cls_token self x =
     (case x of
        [] \<Rightarrow> Inl IndexError
      | b # _ \<Rightarrow>
          (case expand_batch_shape b (vt_cls_token self) of
             Inl e \<Rightarrow> Inl e
           | Inr cls \<Rightarrow> cat1_shape cls x))"

text \<open>\<open>x + self.interpolate_pos_encoding(x, w, h)\<close>.\<close>

definition add_pos_encoding :: "'b VisionTransformer \<Rightarrow> shape \<Rightarrow> nat \<Rightarrow> nat \<Rightarrow> error + shape" where
  "add_pos_encoding self x w h =
     (case interpolate_pos_encoding self x w h of
        Inl e \<Rightarrow> Inl e
      | Inr pos \<Rightarrow> broadcast_shapes x (pos_encoding_shape pos))"

text \<open>
  \<open>torch.cat((x[:, :1], self.register_tokens.expand(x.shape[0], -1, -1), x[:, 1:]), dim=1)\<close>
  when there are register tokens.
\<close>

definition cat_register_tokens :: "'b VisionTransformer \<Rightarrow> shape \<Rightarrow> error + shape" where
  "cat_register_tokens self x =
     (case vt_register_tokens self of
        None \<Rightarrow> Inr x
      | Some register_tokens \<Rightarrow>
          (case slice1_shape 0 (Some 1) x of
             Inl e \<Rightarrow> Inl e
           | Inr first_token \<Rightarrow>
               (case expand_batch_shape (hd x) register_tokens of
                  Inl e \<Rightarrow> Inl e
                | Inr regs \<Rightarrow>
                    (case slice1_shape 1 None x of
                       Inl e \<Rightarrow> Inl e
                     | Inr others \<Rightarrow>
                         (case cat1_shape first_token regs of
                            Inl e \<Rightarrow> Inl e
                          | Inr fr \<Rightarrow> cat1_shape fr others)))))"

definition prepare_tokens_with_masks ::
    "'b VisionTransformer \<Rightarrow> shape \<Rightarrow> shape option \<Rightarrow> error + shape" where
  "prepare_tokens_with_masks self x masks =
     (case x of
        [b0, c, w, h] \<Rightarrow>
          (case PatchEmbed_forward (vt_patch_embed self) x of
             Inl e \<Rightarrow> Inl e
           | Inr x1 \<Rightarrow>
               (case apply_masks self masks x1 of
                  Inl e \<Rightarrow> Inl e
                | Inr x2 \<Rightarrow>
                    (case cat_cls_token self x2 of
                       Inl e \<Rightarrow> Inl e
                     | Inr x3 \<Rightarrow>
                         (case add_pos_encoding self x3 w h of
                            Inl e \<Rightarrow> Inl e
                          | Inr x4 \<Rightarrow> cat_register_tokens self x4))))
      | _ \<Rightarrow> Inl ValueError)"

text \<open>The dictionary \<open>forward_features\<close> returns.\<close>

record features =
  x_norm_1st_clstoken :: shape
  x_norm_2nd_clstoken :: shape
  x_norm_patchtokens :: shape
  x_prenorm :: shape
  masks_out :: "shape option"

definition forward_features ::
    "bool \<Rightarrow> Block VisionTransformer \<Rightarrow> shape \<Rightarrow> shape option \<Rightarrow> error + features" where
  "forward_features xformers_available self x masks =
     (case prepare_tokens_with_masks self x masks of
        Inl e \<Rightarrow> Inl e
      | Inr x1 \<Rightarrow>
          (case run_blocks (Block_forward_shape xformers_available) (vt_blocks self) x1 of
             Inl e \<Rightarrow> Inl e
           | Inr x2 \<Rightarrow>
               (case LayerNorm_shape (vt_embed_dim self) x2 of
                  Inl e \<Rightarrow> Inl e
                | Inr x_norm \<Rightarrow>
                    (case slice1_shape 0 (Some 1) x_norm of
                       Inl e \<Rightarrow> Inl e
                     | Inr t1 \<Rightarrow>
                         (case slice1_shape 1 (Some (vt_num_register_tokens self + 1)) x_norm of
                            Inl e \<Rightarrow> Inl e
                          | Inr t2 \<Rightarrow>
                              (case slice1_shape (vt_num_register_tokens self + 1) None x_norm of
                                 Inl e \<Rightarrow> Inl e
                               | Inr t3 \<Rightarrow>
                                   Inr \<lparr> x_norm_1st_clstoken = t1,
                                         x_norm_2nd_clstoken = t2,
                                         x_norm_patchtokens = t3,
                                         x_prenorm = x2,
                                         masks_out = masks \<rparr>))))))"

text \<open>
  \<open>VisionTransformer.forward\<close>: the dictionary when \<open>is_training\<close>, otherwise the
  3-tuple (the head is \<open>nn.Identity()\<close>).
\<close>

datatype forward_result = Training features | Inference shape shape shape

definition forward ::
    "bool \<Rightarrow> Block VisionTransformer \<Rightarrow> shape \<Rightarrow> shape option \<Rightarrow> bool \<Rightarrow> error + forward_result" where
  "forward xformers_available self x masks is_training =
     (case forward_features xformers_available self x masks of
        Inl e \<Rightarrow> Inl e
      | Inr ret \<Rightarrow>
          if is_training then Inr (Training ret)
          else Inr (Inference (x_norm_1st_clstoken ret) (x_norm_2nd_clstoken ret)
                      (x_norm_patchtokens ret)))"

text \<open>\<open>vit_small(patch_size=14)\<close> with no further keyword arguments.\<close>

definition vit_small_args :: "nat \<Rightarrow> vit_args" where
  "vit_small_args patch_size =
     default_args \<lparr> arg_patch_size := Single patch_size, arg_embed_dim := 384, arg_depth := 12,
                    arg_num_heads := 6, arg_mlp_ratio := 4,
                    arg_attn_class := MemEffAttention_class, arg_num_register_tokens := 1 \<rparr>"

definition vit_small :: "nat \<Rightarrow> error + Block VisionTransformer" where
  "vit_small patch_size = VisionTransformer_init (vit_small_args patch_size)"

section \<open>Two configurations used as examples\<close>

text \<open>
  The block that \<open>vit_small\<close> builds at every depth, and the model
  \<open>VisionTransformer(img_size=(224, 448), patch_size=14)\<close> with the block it builds.
\<close>

definition vit_small_block :: Block where
  "vit_small_block =
     \<lparr> bk_dim = 384,
       bk_attn = \<lparr> at_dim = 384, at_num_heads = 6, at_class = MemEffAttention_class \<rparr>,
       bk_layer_scale = False, bk_mlp = Mlp 384 1536 384, bk_sample_drop_ratio = 0 \<rparr>"

definition wide_vit_args :: vit_args where
  "wide_vit_args = default_args \<lparr> arg_img_size := Pair 224 448, arg_patch_size := Single 14 \<rparr>"

definition wide_vit_block :: Block where
  "wide_vit_block =
     \<lparr> bk_dim = 768,
       bk_attn = \<lparr> at_dim = 768, at_num_heads = 12, at_class = Attention_class \<rparr>,
       bk_layer_scale = False, bk_mlp = Mlp 768 3072 768, bk_sample_drop_ratio = 0 \<rparr>"

section \<open>Token sequences and the transformer block on values\<close>

text \<open>
  For the claims about values a tensor of shape \<open>[b, n, d]\<close> is its list of \<open>b\<close>
  samples, each a list of \<open>n\<close> tokens; \<open>tn_seq\<close> is \<open>x.shape[1]\<close>, which an empty
  batch still has. A token (a vector of \<open>d\<close> numbers) is a value of a real vector
  space \<open>'t\<close>. Arithmetic is exact; floating point rounding is not modelled.
\<close>

record 't tensor =
  tn_seq :: nat
  tn_rows :: "'t list list"

definition wf_tensor :: "'t tensor \<Rightarrow> bool" where
  "wf_tensor x = list_all (\<lambda>r. length r = tn_seq x) (tn_rows x)"

text \<open>
  A layer that acts on every token alone (\<open>nn.Linear\<close>, \<open>nn.LayerNorm\<close>,
  \<open>LayerScale\<close>, the feed-forward layer), and one that acts on every sample alone.
\<close>

definition tokenwise :: "('a \<Rightarrow> 'b) \<Rightarrow> 'a tensor \<Rightarrow> 'b tensor" where
  "tokenwise f x = \<lparr> tn_seq = tn_seq x, tn_rows = map (map f) (tn_rows x) \<rparr>"

definition rowwise :: "('a list \<Rightarrow> 'b list) \<Rightarrow> 'a tensor \<Rightarrow> 'b tensor" where
  "rowwise f x = \<lparr> tn_seq = tn_seq x, tn_rows = map f (tn_rows x) \<rparr>"

text \<open>\<open>x + y\<close> for two tensors of one shape (the residual has the shape of \<open>x\<close>).\<close>

definition add_tensor :: "('t::real_vector) tensor \<Rightarrow> 't tensor \<Rightarrow> error + 't tensor" where
  "add_tensor x y =
     (if tn_seq x = tn_seq y \<and> length (tn_rows x) = length (tn_rows y)
      then Inr \<lparr> tn_seq = tn_seq x, tn_rows = map2 (map2 (+)) (tn_rows x) (tn_rows y) \<rparr>
      else Inl RuntimeError)"

text \<open>Cutting a list into consecutive pieces of the given lengths.\<close>

fun chop :: "nat list \<Rightarrow> 'a list \<Rightarrow> 'a list list" where
  "chop [] xs = []"
| "chop (n # ns) xs = take n xs # chop ns (drop n xs)"

subsection \<open>Attention\<close>

text \<open>
  An attention layer: \<open>am_qkv\<close> is \<open>self.qkv\<close> on a token, \<open>am_proj\<close> is
  \<open>self.proj\<close> followed by \<open>self.proj_drop\<close> on a token, and \<open>am_attend\<close> is the
  dense computation of \<open>Attention.forward\<close> on one sample (the split into heads,
  \<open>q * scale\<close>, \<open>q @ k.transpose(-2, -1)\<close>, the softmax, \<open>attn_drop\<close>, \<open>attn @ v\<close> and
  the merge of the heads), which treats the samples of a batch independently.
  \<open>am_mem_eff\<close> says whether the layer is a \<open>MemEffAttention\<close>.
\<close>

record ('t, 'q, 'h) Attention_module =
  am_qkv :: "'t \<Rightarrow> 'q"
  am_attend :: "'q list \<Rightarrow> 'h list"
  am_proj :: "'h \<Rightarrow> 't"
  am_mem_eff :: bool

definition Attention_forward :: "('t, 'q, 'h) Attention_module \<Rightarrow> 't tensor \<Rightarrow> error + 't tensor" where
  "Attention_forward self x =
     Inr (tokenwise (am_proj self) (rowwise (am_attend self) (tokenwise (am_qkv self) x)))"

text \<open>
  A \<open>fmha.BlockDiagonalMask\<close>: the sequence lengths it was built from, the
  \<open>_batch_sizes\<close> attached to it, and the identity of the object (the number of masks
  constructed before it).
\<close>

record attn_bias =
  ab_seqlens :: "nat list"
  ab_batch_sizes :: "nat list"
  ab_ident :: nat

text \<open>
  xFormers' \<open>memory_efficient_attention(q, k, v, attn_bias)\<close>, with \<open>mea\<close> its
  attention over one sequence: without a bias every sample attends within itself;
  with a block-diagonal mask the input is one packed sequence, cut at the mask's
  sequence lengths, and every block attends within itself.
\<close>

definition memory_efficient_attention ::
    "('q list \<Rightarrow> 'h list) \<Rightarrow> 'q tensor \<Rightarrow> attn_bias option \<Rightarrow> error + 'h tensor" where
  "memory_efficient_attention mea qkv attn_bias =
     (case attn_bias of
        None \<Rightarrow> Inr (rowwise mea qkv)
      | Some bias \<Rightarrow>
          (case tn_rows qkv of
             [row] \<Rightarrow>
               if sum_list (ab_seqlens bias) = tn_seq qkv
               then Inr \<lparr> tn_seq = tn_seq qkv,
                          tn_rows = [concat (map mea (chop (ab_seqlens bias) row))] \<rparr>
               else Inl ValueError
           | _ \<Rightarrow> Inl ValueError))"

text \<open>\<open>MemEffAttention.forward\<close>.\<close>

definition MemEffAttention_forward ::
    "bool \<Rightarrow> ('q list \<Rightarrow> 'h list) \<Rightarrow> ('t, 'q, 'h) Attention_module \<Rightarrow> 't tensor \<Rightarrow> attn_bias option
      \<Rightarrow> error + 't tensor" where
  "MemEffAttention_forward xformers_available mea self x attn_bias =
     (if \<not> xformers_available then
        (if attn_bias \<noteq> None then Inl AssertionError else Attention_forward self x)
      else
        (case memory_efficient_attention mea (tokenwise (am_qkv self) x) attn_bias of
           Inl e \<Rightarrow> Inl e
         | Inr y \<Rightarrow> Inr (tokenwise (am_proj self) y)))"

text \<open>
  The call \<open>self.attn(x)\<close> or \<open>self.attn(x, attn_bias=...)\<close>: \<open>Attention.forward\<close>
  takes no \<open>attn_bias\<close> argument.
\<close>

definition attn_call ::
    "bool \<Rightarrow> ('q list \<Rightarrow> 'h list) \<Rightarrow> ('t, 'q, 'h) Attention_module \<Rightarrow> 't tensor \<Rightarrow> attn_bias option option
      \<Rightarrow> error + 't tensor" where
  "attn_call xformers_available mea self x kw =
     (if am_mem_eff self then
        MemEffAttention_forward xformers_available mea self x (case kw of None \<Rightarrow> None | Some b \<Rightarrow> b)
      else (case kw of None \<Rightarrow> Attention_forward self x | Some _ \<Rightarrow> Inl TypeError))"

subsection \<open>Stochastic depth\<close>

text \<open>
  Random draws are arguments: \<open>bernoulli i\<close> is the draw of \<open>bernoulli_(keep_prob)\<close>
  for sample \<open>i\<close>, and \<open>perm\<close> is the result of \<open>torch.randperm(b)\<close>.

  \<open>drop_path_impl\<close>.
\<close>

definition drop_path_impl ::
    "('t::real_vector) tensor \<Rightarrow> real \<Rightarrow> bool \<Rightarrow> (nat \<Rightarrow> bool) \<Rightarrow> 't tensor" where
  "drop_path_impl x drop_prob training bernoulli =
     (if drop_prob = 0 \<or> \<not> training then x
      else
        let keep_prob = 1 - drop_prob;
            random_tensor = map (\<lambda>i. if bernoulli i then (1::real) else 0) [0 ..< length (tn_rows x)];
            random_tensor = (if keep_prob > 0 then map (\<lambda>r. r / keep_prob) random_tensor
                             else random_tensor)
        in \<lparr> tn_seq = tn_seq x,
             tn_rows = map2 (\<lambda>r row. map (\<lambda>t. r *\<^sub>R t) row) random_tensor (tn_rows x) \<rparr>)"

text \<open>
  \<open>torch.index_add(x_flat, 0, brange, residual, alpha=alpha)\<close> on the samples:
  \<open>x[brange[j]] += alpha * residual[j]\<close>.
\<close>

fun index_add :: "('t::real_vector) list list \<Rightarrow> nat list \<Rightarrow> 't list list \<Rightarrow> real \<Rightarrow> error + 't list list" where
  "index_add x [] [] alpha = Inr x"
| "index_add x (i # brange) (r # residual) alpha =
     (if i < length x
      then index_add (x[i := map2 (\<lambda>a c. a + alpha *\<^sub>R c) (x ! i) r]) brange residual alpha
      else Inl IndexError)"
| "index_add x _ _ alpha = Inl RuntimeError"

text \<open>\<open>x[brange]\<close>: the samples at the given indices.\<close>

definition index_select :: "'t tensor \<Rightarrow> nat list \<Rightarrow> error + 't tensor" where
  "index_select x brange =
     (if list_all (\<lambda>i. i < length (tn_rows x)) brange
      then Inr \<lparr> tn_seq = tn_seq x, tn_rows = map (\<lambda>i. tn_rows x ! i) brange \<rparr>
      else Inl IndexError)"

text \<open>
  The subset size and scale of \<open>drop_add_residual_stochastic_depth\<close> and
  \<open>get_branges_scales\<close>: \<open>max(int(b * (1 - sample_drop_ratio)), 1)\<close> and
  \<open>b / sample_subset_size\<close>.
\<close>

definition sample_subset_size :: "nat \<Rightarrow> real \<Rightarrow> nat" where
  "sample_subset_size b sample_drop_ratio = nat (max (py_int (real b * (1 - sample_drop_ratio))) 1)"

definition get_branges_scales :: "'t tensor \<Rightarrow> real \<Rightarrow> nat list \<Rightarrow> nat list \<times> real" where
  "get_branges_scales x sample_drop_ratio perm =
     (let b = length (tn_rows x);
          brange = take (sample_subset_size b sample_drop_ratio) perm;
          residual_scale_factor = real b / real (sample_subset_size b sample_drop_ratio)
      in (brange, residual_scale_factor))"

definition drop_add_residual_stochastic_depth ::
    "('t::real_vector) tensor \<Rightarrow> ('t tensor \<Rightarrow> error + 't tensor) \<Rightarrow> real \<Rightarrow> nat list \<Rightarrow> error + 't tensor" where
  "drop_add_residual_stochastic_depth x residual_func sample_drop_ratio perm =
     (let b = length (tn_rows x);
          brange = take (sample_subset_size b sample_drop_ratio) perm
      in case index_select x brange of
           Inl e \<Rightarrow> Inl e
         | Inr x_subset \<Rightarrow>
             (case residual_func x_subset of
                Inl e \<Rightarrow> Inl e
              | Inr residual \<Rightarrow>
                  let residual_scale_factor = real b / real (sample_subset_size b sample_drop_ratio)
                  in (case index_add (tn_rows x) brange (tn_rows residual) residual_scale_factor of
                        Inl e \<Rightarrow> Inl e
                      | Inr rows \<Rightarrow> Inr \<lparr> tn_seq = tn_seq x, tn_rows = rows \<rparr>)))"

subsection \<open>The block\<close>

text \<open>
  A block on values: its layers as functions on a token, the attention layer, the
  mode \<open>self.training\<close> and \<open>sample_drop_ratio\<close>. \<open>bm_layer_scale\<close> says whether
  \<open>ls1\<close>, \<open>ls2\<close> are \<open>LayerScale\<close> layers (otherwise \<open>nn.Identity\<close>). Dropout inside
  the layers is off: the constructors of this file never pass a dropout rate.
\<close>

record ('t, 'q, 'h) Block_module =
  bm_norm1 :: "'t \<Rightarrow> 't"
  bm_attn :: "('t, 'q, 'h) Attention_module"
  bm_ls1 :: "'t \<Rightarrow> 't"
  bm_norm2 :: "'t \<Rightarrow> 't"
  bm_mlp :: "'t \<Rightarrow> 't"
  bm_ls2 :: "'t \<Rightarrow> 't"
  bm_layer_scale :: bool
  bm_training :: bool
  bm_sample_drop_ratio :: real

record randomness =
  randperm1 :: "nat list"
  randperm2 :: "nat list"
  bernoulli1 :: "nat \<Rightarrow> bool"
  bernoulli2 :: "nat \<Rightarrow> bool"

definition attn_residual_func ::
    "bool \<Rightarrow> ('q list \<Rightarrow> 'h list) \<Rightarrow> ('t, 'q, 'h) Block_module \<Rightarrow> 't tensor \<Rightarrow> error + 't tensor" where
  "attn_residual_func xformers_available mea self x =
     (case attn_call xformers_available mea (bm_attn self) (tokenwise (bm_norm1 self) x) None of
        Inl e \<Rightarrow> Inl e
      | Inr y \<Rightarrow> Inr (tokenwise (bm_ls1 self) y))"

definition ffn_residual_func :: "('t, 'q, 'h) Block_module \<Rightarrow> 't tensor \<Rightarrow> error + 't tensor" where
  "ffn_residual_func self x =
     Inr (tokenwise (bm_ls2 self) (tokenwise (bm_mlp self) (tokenwise (bm_norm2 self) x)))"

text \<open>One stage \<open>x = x + f(x)\<close>, with the residual passed through \<open>drop_fn\<close>.\<close>

definition add_residual_stage ::
    "('t::real_vector) tensor \<Rightarrow> ('t tensor \<Rightarrow> error + 't tensor) \<Rightarrow> ('t tensor \<Rightarrow> 't tensor) \<Rightarrow> error + 't tensor" where
  "add_residual_stage x f drop_fn =
     (case f x of Inl e \<Rightarrow> Inl e | Inr r \<Rightarrow> add_tensor x (drop_fn r))"

text \<open>
  \<open>Block.forward\<close>. In its second branch both stages go through
  \<open>self.drop_path1\<close>, a \<open>DropPath(sample_drop_ratio)\<close> since the ratio is positive.
\<close>

definition Block_forward ::
    "bool \<Rightarrow> ('q list \<Rightarrow> 'h list) \<Rightarrow> ('t::real_vector, 'q, 'h) Block_module \<Rightarrow> randomness \<Rightarrow> 't tensor
      \<Rightarrow> error + 't tensor" where
  "Block_forward xformers_available mea self rnd x =
     (if bm_training self \<and> bm_sample_drop_ratio self > 1 / 10 then
        (case drop_add_residual_stochastic_depth x (attn_residual_func xformers_available mea self)
                (bm_sample_drop_ratio self) (randperm1 rnd) of
           Inl e \<Rightarrow> Inl e
         | Inr x1 \<Rightarrow>
             drop_add_residual_stochastic_depth x1 (ffn_residual_func self)
               (bm_sample_drop_ratio self) (randperm2 rnd))
      else if bm_training self \<and> bm_sample_drop_ratio self > 0 then
        (case add_residual_stage x (attn_residual_func xformers_available mea self)
                (\<lambda>r. drop_path_impl r (bm_sample_drop_ratio self) (bm_training self) (bernoulli1 rnd)) of
           Inl e \<Rightarrow> Inl e
         | Inr x1 \<Rightarrow>
             add_residual_stage x1 (ffn_residual_func self)
               (\<lambda>r. drop_path_impl r (bm_sample_drop_ratio self) (bm_training self) (bernoulli2 rnd)))
      else
        (case add_residual_stage x (attn_residual_func xformers_available mea self) (\<lambda>r. r) of
           Inl e \<Rightarrow> Inl e
         | Inr x1 \<Rightarrow> add_residual_stage x1 (ffn_residual_func self) (\<lambda>r. r)))"

chapter \<open>Properties\<close>

section \<open>Auxiliary facts about the model\<close>

lemma Conv2d_shape_patches:
  assumes "0 < ph" "0 < pw" "ph dvd h" "pw dvd w" "0 < h" "0 < w"
  shows "Conv2d_shape c d (ph, pw) (ph, pw) [b, c, h, w] = Inr [b, d, h div ph, w div pw]"
proof -
  from assms obtain k where k: "h = ph * k" and k0: "0 < k" by (auto elim!: dvdE)
  from assms obtain l where l: "w = pw * l" and l0: "0 < l" by (auto elim!: dvdE)
  have hk: "(h - ph) div ph + 1 = k"
  proof -
    have "h - ph = ph * (k - 1)" using k k0 by (simp add: right_diff_distrib')
    then show ?thesis using assms(1) k0 by simp
  qed
  have wl: "(w - pw) div pw + 1 = l"
  proof -
    have "w - pw = pw * (l - 1)" using l l0 by (simp add: right_diff_distrib')
    then show ?thesis using assms(2) l0 by simp
  qed
  have ge: "ph \<le> h" "pw \<le> w" using k k0 l l0 by auto
  have dk: "h div ph = k" "w div pw = l" using k l assms(1,2) by auto
  show ?thesis using hk wl ge dk by (simp add: Conv2d_shape_def)
qed

lemma PatchEmbed_forward_flat:
  assumes "pe_patch_size self = (ph, pw)" "0 < ph" "0 < pw" "pe_flatten_embedding self"
    "c = pe_in_chans self" "0 < h" "0 < w" "ph dvd h" "pw dvd w"
  shows "PatchEmbed_forward self [b, c, h, w] = Inr [b, (h div ph) * (w div pw), pe_embed_dim self]"
proof -
  have conv: "Conv2d_shape (pe_in_chans self) (pe_embed_dim self) (ph, pw) (ph, pw) [b, c, h, w]
      = Inr [b, pe_embed_dim self, h div ph, w div pw]"
    using Conv2d_shape_patches [of ph pw h w c "pe_embed_dim self" b] assms by simp
  show ?thesis
    using assms conv
    by (simp add: PatchEmbed_forward_def flatten_shape_def transpose_shape_def LayerNorm_shape_def
          mod_eq_0_iff_dvd)
qed

lemma broadcast_batch: "broadcast_shapes [b, n, d] [Suc 0, n, d] = Inr [b, n, d]"
  by (simp add: broadcast_shapes_def)

lemma Attention_forward_shape_ok:
  assumes "at_dim a = d" "at_num_heads a = nh" "0 < nh" "nh dvd d"
  shows "Attention_forward_shape a [b, n, d] = Inr [b, n, d]"
proof -
  have "nh * (d div nh) = d" using assms by simp
  then have p: "b * (n * (3 * (nh * (d div nh)))) = b * (n * (d * 3))" by simp
  have q: "b * (nh * (n * (d div nh))) = b * (n * d)"
    using \<open>nh * (d div nh) = d\<close> by (metis mult.assoc mult.left_commute)
  show ?thesis
    using assms p q
    by (simp add: Attention_forward_shape_def Linear_shape_def reshape_shape_def transpose_shape_def)
qed

lemma MemEffAttention_forward_shape_ok:
  assumes "at_dim a = d" "at_num_heads a = nh" "0 < nh" "nh dvd d"
  shows "MemEffAttention_forward_shape xf a [b, n, d] False = Inr [b, n, d]"
proof (cases xf)
  case False
  then show ?thesis using Attention_forward_shape_ok [OF assms]
    by (simp add: MemEffAttention_forward_shape_def)
next
  case True
  have e: "nh * (d div nh) = d" using assms by simp
  then have p: "b * (n * (3 * (nh * (d div nh)))) = b * (n * (d * 3))" by simp
  have q: "b * (n * (nh * (d div nh))) = b * (n * d)" using e by simp
  show ?thesis
    using True assms p q
    by (simp add: MemEffAttention_forward_shape_def Linear_shape_def reshape_shape_def)
qed

lemma vit_small_block_forward:
  "Block_forward_shape xf vit_small_block [b, n, 384] = Inr [b, n, 384]"
proof -
  have a: "attn_forward_shape xf (bk_attn vit_small_block) [b, n, 384] = Inr [b, n, 384]"
    using MemEffAttention_forward_shape_ok [of "bk_attn vit_small_block" 384 6 xf b n]
    by (simp add: attn_forward_shape_def vit_small_block_def)
  have f: "ffn_forward_shape (bk_mlp vit_small_block) [b, n, 384] = Inr [b, n, 384]"
    by (simp add: vit_small_block_def Linear_shape_def)
  have bc: "broadcast_shapes [b, n, 384] [b, n, 384] = Inr [b, n, 384]"
    by (simp add: broadcast_shapes_def)
  have d: "bk_dim vit_small_block = 384" "bk_layer_scale vit_small_block = False"
    by (simp_all add: vit_small_block_def)
  show ?thesis
    by (simp add: Block_forward_shape_def residual_shape_def LayerNorm_shape_def a f bc d)
qed

lemma BlockChunk_forward_replicate:
  assumes "run blk x = Inr x"
  shows "BlockChunk_forward run (replicate k (Blk blk)) x = Inr x"
  using assms by (induction k) simp_all



lemma py_int_of_nat [simp]: "py_int (real n) = int n"
  by (simp add: py_int_def)

lemma block_init_small:
  "Block_init 384 6 4 False 0 MemEffAttention_class Mlp_class = Inr vit_small_block"
proof -
  have "py_int (real (384::nat) * 4) = 1536"
    by (simp add: py_int_def)
  then show ?thesis
    by (simp add: Block_init_def Attention_init_def Mlp_init_def py_or_def vit_small_block_def)
qed

lemma dpr_small: "dpr (vit_small_args 14) i = 0"
  by (simp add: dpr_def vit_small_args_def default_args_def)

lemma sequence_results_replicate:
  "sequence_results (map (\<lambda>i. Inr v) xs) = Inr (replicate (length xs) v)"
  by (induction xs) simp_all

lemma range_step_unit: "range_step i stop stop = (if i < stop then [i] else [])"
  by (subst range_step.simps, subst range_step.simps) auto

lemma vit_small_14:
  "vit_small 14 =
     Inr \<lparr> vt_embed_dim = 384, vt_n_blocks = 12, vt_num_heads = 6,
           vt_patch_size = Single 14, vt_num_register_tokens = 1,
           vt_interpolate_antialias = False, vt_interpolate_offset = 1 / 10,
           vt_patch_embed =
             \<lparr> pe_img_size = (224, 224), pe_patch_size = (14, 14),
               pe_patches_resolution = (16, 16), pe_num_patches = 256,
               pe_in_chans = 3, pe_embed_dim = 384,
               pe_flatten_embedding = True, pe_norm = False \<rparr>,
           vt_cls_token = [1, 1, 384], vt_pos_embed = [1, 257, 384],
           vt_register_tokens = Some [1, 1, 384],
           vt_blocks = ChunkedBlocks [map Blk (replicate 12 vit_small_block)],
           vt_mask_token = [1, 384] \<rparr>"
proof -
  have args: "arg_embed_dim (vit_small_args 14) = 384" "arg_num_heads (vit_small_args 14) = 6"
    "arg_mlp_ratio (vit_small_args 14) = 4" "arg_init_values (vit_small_args 14) = False"
    "arg_attn_class (vit_small_args 14) = MemEffAttention_class"
    "arg_ffn_layer (vit_small_args 14) = ''mlp''" "arg_depth (vit_small_args 14) = 12"
    "arg_block_chunks (vit_small_args 14) = 1" "arg_num_register_tokens (vit_small_args 14) = 1"
    "arg_img_size (vit_small_args 14) = Single 224" "arg_patch_size (vit_small_args 14) = Single 14"
    "arg_in_chans (vit_small_args 14) = 3" "arg_interpolate_antialias (vit_small_args 14) = False"
    "arg_interpolate_offset (vit_small_args 14) = 1 / 10"
    by (simp_all add: vit_small_args_def default_args_def)
  have blocks: "sequence_results
       (map (\<lambda>i. Block_init 384 6 4 False (dpr (vit_small_args 14) i) MemEffAttention_class Mlp_class) [0 ..< 12])
     = Inr (replicate 12 vit_small_block)"
    using sequence_results_replicate [of vit_small_block "[0 ..< 12]"]
    by (simp add: dpr_small block_init_small)
  have chunk: "make_blocks 12 1 (replicate 12 vit_small_block)
      = Inr (ChunkedBlocks [map Blk (replicate 12 vit_small_block)])"
    by (simp add: make_blocks_def chunk_blocks_def range_step_unit make_chunk_def)
  have pe: "PatchEmbed_init (Single 224) (Single 14) 3 384 False True
     = Inr \<lparr> pe_img_size = (224, 224), pe_patch_size = (14, 14),
               pe_patches_resolution = (16, 16), pe_num_patches = 256,
               pe_in_chans = 3, pe_embed_dim = 384,
               pe_flatten_embedding = True, pe_norm = False \<rparr>"
    by (simp add: PatchEmbed_init_def)
  show ?thesis
    unfolding vit_small_def VisionTransformer_init_def args
    by (simp add: pe blocks chunk)
qed

lemma interpolate_pos_encoding_fast:
  assumes "vt_pos_embed self = [p1, pn, pd]" "n = pn" "w = h"
  shows "interpolate_pos_encoding self [b, n, d] w h = Inr (PosEmbed (vt_pos_embed self))"
  using assms by (simp add: interpolate_pos_encoding_def)

lemma vit_small_forward_shapes:
  assumes m: "vit_small 14 = Inr m"
  shows "forward xf m [b, 3, 224, 224] None False
           = Inr (Inference [b, 1, 384] [b, 1, 384] [b, 256, 384])"
proof -
  have f: "vt_patch_embed m = \<lparr> pe_img_size = (224, 224), pe_patch_size = (14, 14),
               pe_patches_resolution = (16, 16), pe_num_patches = 256,
               pe_in_chans = 3, pe_embed_dim = 384,
               pe_flatten_embedding = True, pe_norm = False \<rparr>"
      "vt_cls_token m = [1, 1, 384]" "vt_pos_embed m = [1, 257, 384]"
      "vt_register_tokens m = Some [1, 1, 384]"
      "vt_blocks m = ChunkedBlocks [map Blk (replicate 12 vit_small_block)]"
      "vt_embed_dim m = 384" "vt_num_register_tokens m = 1"
    using m unfolding vit_small_14 by auto
  have pe: "PatchEmbed_forward (vt_patch_embed m) [b, 3, 224, 224] = Inr [b, 256, 384]"
  proof -
    have 1: "pe_patch_size (vt_patch_embed m) = (14, 14)" by (simp add: f)
    have 2: "pe_flatten_embedding (vt_patch_embed m)" by (simp add: f)
    have 3: "(3::nat) = pe_in_chans (vt_patch_embed m)" by (simp add: f)
    have 4: "(14::nat) dvd 224" by simp
    have 5: "pe_embed_dim (vt_patch_embed m) = 384" by (simp add: f)
    have 6: "(224::nat) div 14 * (224 div 14) = 256" by simp
    have "PatchEmbed_forward (vt_patch_embed m) [b, 3, 224, 224]
           = Inr [b, (224 div 14) * (224 div 14), pe_embed_dim (vt_patch_embed m)]"
      by (rule PatchEmbed_forward_flat [OF 1 _ _ 2 3 _ _ 4 4]) simp_all
    then show ?thesis unfolding 5 6 .
  qed
  have cls: "cat_cls_token m [b, 256, 384] = Inr [b, 257, 384]"
    by (simp add: cat_cls_token_def expand_batch_shape_def cat1_shape_def f)
  have pos: "add_pos_encoding m [b, 257, 384] 224 224 = Inr [b, 257, 384]"
    using interpolate_pos_encoding_fast [of m 1 257 384 257 224 224 b 384]
    by (simp add: add_pos_encoding_def f broadcast_batch)
  have reg: "cat_register_tokens m [b, 257, 384] = Inr [b, 258, 384]"
    by (simp add: cat_register_tokens_def slice1_shape_def expand_batch_shape_def cat1_shape_def f)
  have prep: "prepare_tokens_with_masks m [b, 3, 224, 224] None = Inr [b, 258, 384]"
    by (simp add: prepare_tokens_with_masks_def pe apply_masks_def cls pos reg)
  have blocks: "run_blocks (Block_forward_shape xf) (vt_blocks m) [b, 258, 384] = Inr [b, 258, 384]"
    using BlockChunk_forward_replicate
            [of "Block_forward_shape xf" vit_small_block "[b, 258, 384]" 12, OF vit_small_block_forward]
    by (simp add: f)
  show ?thesis
    by (simp add: forward_def forward_features_def prep blocks LayerNorm_shape_def
          slice1_shape_def f(6,7))
qed

lemma VisionTransformer_init_fields:
  assumes "VisionTransformer_init args = Inr m"
  shows "PatchEmbed_init (arg_img_size args) (arg_patch_size args) (arg_in_chans args)
           (arg_embed_dim args) False True = Inr (vt_patch_embed m)"
    and "vt_pos_embed m = [1, pe_num_patches (vt_patch_embed m) + 1, arg_embed_dim args]"
    and "vt_cls_token m = [1, 1, arg_embed_dim args]"
    and "vt_patch_size m = arg_patch_size args"
  using assms
  by (auto simp add: VisionTransformer_init_def Let_def split: sum.splits if_splits)

lemma PatchEmbed_init_fields:
  assumes "PatchEmbed_init img patch c d nl fl = Inr pe"
  shows "pe_patch_size pe = make_2tuple patch" and "pe_in_chans pe = c" and "pe_embed_dim pe = d"
    and "pe_flatten_embedding pe = fl"
    and "pe_num_patches pe
          = (fst (make_2tuple img) div fst (make_2tuple patch)) * (snd (make_2tuple img) div snd (make_2tuple patch))"
  using assms by (auto simp add: PatchEmbed_init_def Let_def split: if_splits)

lemma block_init_wide:
  "Block_init 768 12 4 False 0 Attention_class Mlp_class = Inr wide_vit_block"
proof -
  have "py_int (real (768::nat) * 4) = 3072"
    by (simp add: py_int_def)
  then show ?thesis
    by (simp add: Block_init_def Attention_init_def Mlp_init_def py_or_def wide_vit_block_def)
qed

lemma wide_vit:
  "VisionTransformer_init wide_vit_args =
     Inr \<lparr> vt_embed_dim = 768, vt_n_blocks = 12, vt_num_heads = 12,
           vt_patch_size = Single 14, vt_num_register_tokens = 0,
           vt_interpolate_antialias = False, vt_interpolate_offset = 1 / 10,
           vt_patch_embed =
             \<lparr> pe_img_size = (224, 448), pe_patch_size = (14, 14),
               pe_patches_resolution = (16, 32), pe_num_patches = 512,
               pe_in_chans = 3, pe_embed_dim = 768,
               pe_flatten_embedding = True, pe_norm = False \<rparr>,
           vt_cls_token = [1, 1, 768], vt_pos_embed = [1, 513, 768],
           vt_register_tokens = None,
           vt_blocks = ChunkedBlocks [map Blk (replicate 12 wide_vit_block)],
           vt_mask_token = [1, 768] \<rparr>"
proof -
  have args: "arg_embed_dim wide_vit_args = 768" "arg_num_heads wide_vit_args = 12"
    "arg_mlp_ratio wide_vit_args = 4" "arg_init_values wide_vit_args = False"
    "arg_attn_class wide_vit_args = Attention_class"
    "arg_ffn_layer wide_vit_args = ''mlp''" "arg_depth wide_vit_args = 12"
    "arg_block_chunks wide_vit_args = 1" "arg_num_register_tokens wide_vit_args = 0"
    "arg_img_size wide_vit_args = Pair 224 448" "arg_patch_size wide_vit_args = Single 14"
    "arg_in_chans wide_vit_args = 3" "arg_interpolate_antialias wide_vit_args = False"
    "arg_interpolate_offset wide_vit_args = 1 / 10"
    by (simp_all add: wide_vit_args_def default_args_def)
  have d: "dpr wide_vit_args i = 0" for i
    by (simp add: dpr_def wide_vit_args_def default_args_def)
  have blocks: "sequence_results
       (map (\<lambda>i. Block_init 768 12 4 False (dpr wide_vit_args i) Attention_class Mlp_class) [0 ..< 12])
     = Inr (replicate 12 wide_vit_block)"
    using sequence_results_replicate [of wide_vit_block "[0 ..< 12]"]
    by (simp add: d block_init_wide)
  have chunk: "make_blocks 12 1 (replicate 12 wide_vit_block)
      = Inr (ChunkedBlocks [map Blk (replicate 12 wide_vit_block)])"
    by (simp add: make_blocks_def chunk_blocks_def range_step_unit make_chunk_def)
  have pe: "PatchEmbed_init (Pair 224 448) (Single 14) 3 768 False True
     = Inr \<lparr> pe_img_size = (224, 448), pe_patch_size = (14, 14),
               pe_patches_resolution = (16, 32), pe_num_patches = 512,
               pe_in_chans = 3, pe_embed_dim = 768,
               pe_flatten_embedding = True, pe_norm = False \<rparr>"
    by (simp add: PatchEmbed_init_def)
  show ?thesis
    unfolding VisionTransformer_init_def args
    by (simp add: pe blocks chunk)
qed

lemma isqrt_512: "isqrt 512 = 22"
  by code_simp


section \<open>The shapes of an inference forward of \<open>vit_small\<close>\<close>

text \<open>
  Claim C1, as amended. \<open>vit_small(patch_size=14)\<close> can be built, and for every
  batch \<open>[b, 3, 224, 224]\<close> its forward with \<open>is_training=False\<close> returns a 3-tuple
  whose first two elements have shape \<open>[b, 1, 384]\<close> (the slices \<open>x_norm[:, :1]\<close> and
  \<open>x_norm[:, 1:2]\<close> keep the token dimension) and whose third has shape
  \<open>[b, 256, 384]\<close>, with or without xFormers.
\<close>

theorem vit_small_inference_shapes:
  "\<exists>m. vit_small 14 = Inr m
     \<and> (\<forall>xformers_available b.
           forward xformers_available m [b, 3, 224, 224] None False
             = Inr (Inference [b, 1, 384] [b, 1, 384] [b, 256, 384]))"
  using vit_small_forward_shapes vit_small_14 by blast

text \<open>
  The claim as stated, with first and second element of shape \<open>[b, 384]\<close>, fails at
  batch size 2.
\<close>

theorem vit_small_inference_shapes_counterexample:
  "\<not> isl (vit_small 14)
   \<and> forward True (projr (vit_small 14)) [2, 3, 224, 224] None False
       = Inr (Inference [2, 1, 384] [2, 1, 384] [2, 256, 384])
   \<and> forward True (projr (vit_small 14)) [2, 3, 224, 224] None False
       \<noteq> Inr (Inference [2, 384] [2, 384] [2, 256, 384])"
proof -
  obtain m where m: "vit_small 14 = Inr m" using vit_small_14 by blast
  have "forward True m [2, 3, 224, 224] None False
       = Inr (Inference [2, 1, 384] [2, 1, 384] [2, 256, 384])"
    using vit_small_forward_shapes [OF m] .
  then show ?thesis using m by simp
qed

section \<open>The identity path of the positional encoding\<close>

text \<open>
  Claim C2, as amended. On a model built by \<open>__init__\<close>,
  \<open>interpolate_pos_encoding\<close> returns the stored table \<open>self.pos_embed\<close> itself for
  every input whose height equals its width and whose token count is that of the
  table; in particular for every image at a square reference resolution
  \<open>img_size = s\<close> that is a positive multiple of the patch size.
\<close>

theorem interpolate_pos_encoding_identity:
  assumes "VisionTransformer_init args = Inr m"
  shows "(w = h \<and> n = pe_num_patches (vt_patch_embed m) + 1
            \<longrightarrow> interpolate_pos_encoding m [b, n, d] w h = Inr (PosEmbed (vt_pos_embed m)))
       \<and> (arg_img_size args = Single s \<and> arg_patch_size args = Single p
            \<and> 0 < p \<and> 0 < s \<and> p dvd s
            \<longrightarrow> PatchEmbed_forward (vt_patch_embed m) [b, arg_in_chans args, s, s]
                  = Inr [b, pe_num_patches (vt_patch_embed m), arg_embed_dim args]
              \<and> cat_cls_token m [b, pe_num_patches (vt_patch_embed m), arg_embed_dim args]
                  = Inr [b, pe_num_patches (vt_patch_embed m) + 1, arg_embed_dim args]
              \<and> interpolate_pos_encoding m
                    [b, pe_num_patches (vt_patch_embed m) + 1, arg_embed_dim args] s s
                  = Inr (PosEmbed (vt_pos_embed m)))"
proof (intro conjI impI)
  note f = VisionTransformer_init_fields [OF assms]
  show fast: "interpolate_pos_encoding m [b, n, d] w h = Inr (PosEmbed (vt_pos_embed m))"
    if "w = h \<and> n = pe_num_patches (vt_patch_embed m) + 1" for w h n d
    using that interpolate_pos_encoding_fast [OF f(2), of n w h b d] by simp
  assume a: "arg_img_size args = Single s \<and> arg_patch_size args = Single p
            \<and> 0 < p \<and> 0 < s \<and> p dvd s"
  note g = PatchEmbed_init_fields [OF f(1)]
  have np: "pe_num_patches (vt_patch_embed m) = (s div p) * (s div p)"
    using g(5) a by simp
  have ps: "pe_patch_size (vt_patch_embed m) = (p, p)" using g(1) a by simp
  show "PatchEmbed_forward (vt_patch_embed m) [b, arg_in_chans args, s, s]
                  = Inr [b, pe_num_patches (vt_patch_embed m), arg_embed_dim args]"
    using PatchEmbed_forward_flat [OF ps, of "arg_in_chans args" s s b] a g(2,3,4) np by simp
  show "cat_cls_token m [b, pe_num_patches (vt_patch_embed m), arg_embed_dim args]
                  = Inr [b, pe_num_patches (vt_patch_embed m) + 1, arg_embed_dim args]"
    by (simp add: cat_cls_token_def f(3) expand_batch_shape_def cat1_shape_def)
  show "interpolate_pos_encoding m
                    [b, pe_num_patches (vt_patch_embed m) + 1, arg_embed_dim args] s s
                  = Inr (PosEmbed (vt_pos_embed m))"
    using fast by simp
qed

theorem interpolate_pos_encoding_identity_witness:
  "\<not> isl (vit_small 14)
   \<and> PatchEmbed_forward (vt_patch_embed (projr (vit_small 14))) [2, 3, 224, 224] = Inr [2, 256, 384]
   \<and> cat_cls_token (projr (vit_small 14)) [2, 256, 384] = Inr [2, 257, 384]
   \<and> interpolate_pos_encoding (projr (vit_small 14)) [2, 257, 384] 224 224
       = Inr (PosEmbed [1, 257, 384])"
proof -
  obtain m where m: "vit_small 14 = Inr m" using vit_small_14 by blast
  have i: "VisionTransformer_init (vit_small_args 14) = Inr m" using m by (simp add: vit_small_def)
  have f: "pe_num_patches (vt_patch_embed m) = 256" "vt_pos_embed m = [1, 257, 384]"
    using m unfolding vit_small_14 by auto
  have a: "arg_img_size (vit_small_args 14) = Single 224"
     "arg_patch_size (vit_small_args 14) = Single 14"
     "arg_in_chans (vit_small_args 14) = 3" "arg_embed_dim (vit_small_args 14) = 384"
    by (simp_all add: vit_small_args_def default_args_def)
  have d: "(14::nat) dvd 224" by simp
  note t = interpolate_pos_encoding_identity [OF i, of 224 224 257 2 384 224 14]
  have "PatchEmbed_forward (vt_patch_embed m) [2, 3, 224, 224] = Inr [2, 256, 384]
     \<and> cat_cls_token m [2, 256, 384] = Inr [2, 257, 384]
     \<and> interpolate_pos_encoding m [2, 257, 384] 224 224 = Inr (PosEmbed [1, 257, 384])"
    using conjunct2 [OF t] a d f by simp
  then show ?thesis using m by simp
qed

text \<open>
  The claim as stated fails for a reference resolution that is not square: the model
  built with \<open>img_size=(224, 448)\<close> and \<open>patch_size=14\<close> holds a table for 512
  patches, and on a 224 by 448 image (513 tokens, as many as the table has) the
  guard \<open>w == h\<close> is false, so the table is not returned; the call fails its
  assertion instead.
\<close>

theorem interpolate_pos_encoding_identity_counterexample:
  "\<not> isl (VisionTransformer_init wide_vit_args)
   \<and> pe_img_size (vt_patch_embed (projr (VisionTransformer_init wide_vit_args))) = (224, 448)
   \<and> vt_pos_embed (projr (VisionTransformer_init wide_vit_args)) = [1, 513, 768]
   \<and> PatchEmbed_forward (vt_patch_embed (projr (VisionTransformer_init wide_vit_args)))
        [2, 3, 224, 448] = Inr [2, 512, 768]
   \<and> cat_cls_token (projr (VisionTransformer_init wide_vit_args)) [2, 512, 768] = Inr [2, 513, 768]
   \<and> interpolate_pos_encoding (projr (VisionTransformer_init wide_vit_args)) [2, 513, 768] 224 448
        = Inl AssertionError
   \<and> prepare_tokens_with_masks (projr (VisionTransformer_init wide_vit_args)) [2, 3, 224, 448] None
        = Inl AssertionError"
proof -
  obtain m where m: "VisionTransformer_init wide_vit_args = Inr m" using wide_vit by blast
  have f: "vt_patch_embed m = \<lparr> pe_img_size = (224, 448), pe_patch_size = (14, 14),
               pe_patches_resolution = (16, 32), pe_num_patches = 512,
               pe_in_chans = 3, pe_embed_dim = 768,
               pe_flatten_embedding = True, pe_norm = False \<rparr>"
      "vt_cls_token m = [1, 1, 768]" "vt_pos_embed m = [1, 513, 768]"
      "vt_patch_size m = Single 14"
    using m unfolding wide_vit by auto
  have pe: "PatchEmbed_forward (vt_patch_embed m) [2, 3, 224, 448] = Inr [2, 512, 768]"
  proof -
    have 1: "pe_patch_size (vt_patch_embed m) = (14, 14)" by (simp add: f)
    have 2: "pe_flatten_embedding (vt_patch_embed m)" by (simp add: f)
    have 3: "(3::nat) = pe_in_chans (vt_patch_embed m)" by (simp add: f)
    have 4: "(14::nat) dvd 224" "(14::nat) dvd 448" by simp_all
    have 5: "pe_embed_dim (vt_patch_embed m) = 768" by (simp add: f)
    have 6: "(224::nat) div 14 * (448 div 14) = 512" by simp
    have "PatchEmbed_forward (vt_patch_embed m) [2, 3, 224, 448]
           = Inr [2, (224 div 14) * (448 div 14), pe_embed_dim (vt_patch_embed m)]"
      by (rule PatchEmbed_forward_flat [OF 1 _ _ 2 3 _ _ 4]) simp_all
    then show ?thesis unfolding 5 6 .
  qed
  have cls: "cat_cls_token m [2, 512, 768] = Inr [2, 513, 768]"
    by (simp add: cat_cls_token_def expand_batch_shape_def cat1_shape_def f)
  have ip: "interpolate_pos_encoding m [2, 513, 768] 224 448 = Inl AssertionError"
    by (simp add: interpolate_pos_encoding_def f isqrt_512)
  have prep: "prepare_tokens_with_masks m [2, 3, 224, 448] None = Inl AssertionError"
    by (simp add: prepare_tokens_with_masks_def pe apply_masks_def cls add_pos_encoding_def ip)
  show ?thesis using m f pe cls ip prep by simp
qed

section \<open>Chunked and plain block sequences agree\<close>

lemma chunk_inner_loop_Blk:
  "not_chunked_loop run take_i i (bs @ rest) x outp =
     (case chunk_inner_loop run take_i (map Blk bs) (i, x, outp) of
        Inl e \<Rightarrow> Inl e
      | Inr st \<Rightarrow> not_chunked_loop run take_i (fst st) rest (fst (snd st)) (snd (snd st)))"
  by (induction bs arbitrary: i x outp) (auto split: sum.splits)

lemma chunk_inner_loop_index:
  "chunk_inner_loop run take_i ms (i, x, outp) = Inr st \<Longrightarrow> fst st = i + length ms"
  by (induction ms arbitrary: i x outp) (auto split: sum.splits)

lemma drop_make_chunk: "drop i (make_chunk chunksize blocks_list i) = map Blk (take chunksize (drop i blocks_list))"
  by (simp add: make_chunk_def)

lemma length_make_chunk:
  "length (make_chunk chunksize blocks_list i) = i + min chunksize (length blocks_list - i)"
  by (simp add: make_chunk_def min.commute)

lemma chunk_outer_loop_eq:
  assumes "0 < chunksize"
  shows "(case chunk_outer_loop run take_i
              (map (make_chunk chunksize blocks_list) (range_step i (length blocks_list) chunksize))
              (i, x, outp) of
            Inl e \<Rightarrow> Inl e
          | Inr st \<Rightarrow> Inr (snd (snd st)))
         = not_chunked_loop run take_i i (drop i blocks_list) x outp"
  using assms
proof (induction i "length blocks_list" chunksize arbitrary: x outp rule: range_step.induct)
  case (1 i step)
  show ?case
  proof (cases "length blocks_list \<le> i")
    case True
    then show ?thesis by (simp add: range_step.simps)
  next
    case False
    let ?bs = "take step (drop i blocks_list)"
    let ?rest = "drop (i + step) blocks_list"
    have split: "drop i blocks_list = ?bs @ ?rest"
      by (metis add.commute append_take_drop_id drop_drop)
    have rs: "range_step i (length blocks_list) step = i # range_step (i + step) (length blocks_list) step"
      using False 1(2) by (subst range_step.simps) simp
    show ?thesis
    proof (cases "chunk_inner_loop run take_i (map Blk ?bs) (i, x, outp)")
      case (Inl e)
      then show ?thesis
        using chunk_inner_loop_Blk [of run take_i i ?bs ?rest x outp] split rs
        by (simp add: drop_make_chunk)
    next
      case (Inr st)
      obtain i' x' out' where st: "st = (i', x', out')" by (cases st) auto
      have i': "i' = i + length ?bs"
        using chunk_inner_loop_index [OF Inr] st by simp
      have nc: "not_chunked_loop run take_i i (drop i blocks_list) x outp
                 = not_chunked_loop run take_i i' ?rest x' out'"
        using chunk_inner_loop_Blk [of run take_i i ?bs ?rest x outp] split Inr st by simp
      show ?thesis
      proof (cases "i + step \<le> length blocks_list")
        case True
        then have "i' = i + step" using i' by simp
        then show ?thesis
          using 1(1) [of x' out'] False 1(2) nc Inr st rs
          by (simp add: drop_make_chunk)
      next
        case False
        then have e: "range_step (i + step) (length blocks_list) step = []" "?rest = []"
          by (simp_all add: range_step.simps)
        show ?thesis using nc Inr st rs e by (simp add: drop_make_chunk)
      qed
    qed
  qed
qed

lemma last_chunk_length:
  assumes "0 < chunksize" "i < length blocks_list"
  shows "length (last (map (make_chunk chunksize blocks_list) (range_step i (length blocks_list) chunksize)))
           = length blocks_list"
  using assms
proof (induction i "length blocks_list" chunksize rule: range_step.induct)
  case (1 i step)
  have rs: "range_step i (length blocks_list) step = i # range_step (i + step) (length blocks_list) step"
    using 1(2,3) by (subst range_step.simps) simp
  show ?case
  proof (cases "i + step < length blocks_list")
    case True
    then have ne: "range_step (i + step) (length blocks_list) step \<noteq> []"
      using 1(2) by (subst range_step.simps) simp
    show ?thesis using 1 True rs ne by simp
  next
    case False
    then have e: "range_step (i + step) (length blocks_list) step = []"
      by (simp add: range_step.simps)
    show ?thesis using False 1(3) rs e by (simp add: length_make_chunk)
  qed
qed

lemma range_step_nth:
  "k < length (range_step i stop step) \<Longrightarrow> range_step i stop step ! k = i + k * step"
proof (induction i stop step arbitrary: k rule: range_step.induct)
  case (1 i stop step)
  show ?case
  proof (cases "step = 0 \<or> stop \<le> i")
    case True
    then show ?thesis using 1(2) by (simp add: range_step.simps)
  next
    case False
    then have rs: "range_step i stop step = i # range_step (i + step) stop step"
      by (subst range_step.simps) simp
    show ?thesis
    proof (cases k)
      case 0
      then show ?thesis using rs by simp
    next
      case (Suc k')
      then show ?thesis using 1(1) [of k'] 1(2) False rs by simp
    qed
  qed
qed

lemma range_step_bound:
  "k < length (range_step i stop step) \<Longrightarrow> i + k * step < stop"
proof (induction i stop step arbitrary: k rule: range_step.induct)
  case (1 i stop step)
  show ?case
  proof (cases "step = 0 \<or> stop \<le> i")
    case True
    then show ?thesis using 1(2) by (simp add: range_step.simps)
  next
    case False
    then have rs: "range_step i stop step = i # range_step (i + step) stop step"
      by (subst range_step.simps) simp
    show ?thesis
    proof (cases k)
      case 0
      then show ?thesis using False by simp
    next
      case (Suc k')
      then show ?thesis using 1(1) [of k'] 1(2) False rs by simp
    qed
  qed
qed

lemma make_chunk_nth:
  assumes "j < length (make_chunk chunksize blocks_list i)"
  shows "make_chunk chunksize blocks_list i ! j = (if j < i then Identity else Blk (blocks_list ! j))"
proof (cases "j < i")
  case True
  then show ?thesis by (simp add: make_chunk_def nth_append)
next
  case False
  then have j: "j - i < chunksize" "j - i < length blocks_list - i"
    using assms unfolding length_make_chunk by arith+
  have "make_chunk chunksize blocks_list i ! j = map Blk (take chunksize (drop i blocks_list)) ! (j - i)"
    using False by (simp add: make_chunk_def nth_append)
  also have "\<dots> = Blk (blocks_list ! j)"
    using j False by simp
  finally show ?thesis using False by simp
qed

text \<open>
  Claim C6. When \<open>__init__\<close> has chunked the \<open>depth\<close> blocks of
  \<open>blocks_list\<close> (\<open>block_chunks > 0\<close>), the chunked model and the plain model
  over the same blocks return the same intermediate-layer outputs, for every input
  and every choice \<open>n\<close> of block indices (or the same failure); and in chunk \<open>k\<close>
  the entries before \<open>k * chunksize\<close> are \<open>nn.Identity()\<close> placeholders while
  every other entry \<open>j\<close> is the block of global index \<open>j\<close>.
\<close>

theorem chunked_equals_not_chunked:
  assumes "chunk_blocks (length blocks_list) block_chunks blocks_list = Inr chunks"
  shows "get_intermediate_layers_chunked run prep chunks x n
           = get_intermediate_layers_not_chunked run prep blocks_list x n
       \<and> (\<forall>k < length chunks. \<forall>j < length (chunks ! k).
            chunks ! k ! j
              = (if j < k * (length blocks_list div block_chunks) then Identity
                 else Blk (blocks_list ! j)))"
proof -
  define cs where "cs = length blocks_list div block_chunks"
  have cs: "0 < cs"
    using assms by (auto simp add: chunk_blocks_def cs_def Let_def split: if_splits)
  have chunks: "chunks = map (make_chunk cs blocks_list) (range_step 0 (length blocks_list) cs)"
    using assms by (auto simp add: chunk_blocks_def cs_def Let_def split: if_splits)
  have len: "0 < length blocks_list"
    using cs by (auto simp add: cs_def intro: Nat.gr0I)
  have ne: "chunks \<noteq> []"
    using cs len by (simp add: chunks range_step.simps [of 0])
  have total: "length (last chunks) = length blocks_list"
    unfolding chunks using last_chunk_length [OF cs len] .
  have loop: "(case chunk_outer_loop run tk chunks (0, x0, []) of
                 Inl e \<Rightarrow> Inl e | Inr st \<Rightarrow> Inr (snd (snd st)))
              = not_chunked_loop run tk 0 blocks_list x0 []" for tk x0
    unfolding chunks using chunk_outer_loop_eq [OF cs, of run tk blocks_list 0 x0 "[]"] by simp
  have eq: "get_intermediate_layers_chunked run prep chunks x n
           = get_intermediate_layers_not_chunked run prep blocks_list x n"
  proof (cases "prep x")
    case (Inl e)
    then show ?thesis
      by (simp add: get_intermediate_layers_chunked_def get_intermediate_layers_not_chunked_def)
  next
    case (Inr x0)
    have L: "not_chunked_loop run (in_blocks_to_take (length blocks_list) n) 0 blocks_list x0 []
          = (case chunk_outer_loop run (in_blocks_to_take (length blocks_list) n) chunks (0, x0, []) of
                 Inl e \<Rightarrow> Inl e | Inr st \<Rightarrow> Inr (snd (snd st)))"
      using loop [of "in_blocks_to_take (length blocks_list) n" x0] by simp
    show ?thesis
      using Inr ne total
      by (cases "chunk_outer_loop run (in_blocks_to_take (length blocks_list) n) chunks (0, x0, [])")
         (simp_all add: get_intermediate_layers_chunked_def get_intermediate_layers_not_chunked_def L
            Let_def split: prod.splits)
  qed
  have pad: "chunks ! k ! j = (if j < k * cs then Identity else Blk (blocks_list ! j))"
    if k: "k < length chunks" and j: "j < length (chunks ! k)" for k j
  proof -
    have k': "k < length (range_step 0 (length blocks_list) cs)" using k by (simp add: chunks)
    have "chunks ! k = make_chunk cs blocks_list (k * cs)"
      using k' range_step_nth [OF k'] by (simp add: chunks)
    then show ?thesis using make_chunk_nth [of j cs blocks_list "k * cs"] j by simp
  qed
  show ?thesis using eq pad unfolding cs_def by blast
qed

lemma chunk_blocks_5_2:
  "chunk_blocks 5 2 [1, 2, 3, 4, 5 :: nat]
     = Inr [[Blk 1, Blk 2],
            [Identity, Identity, Blk 3, Blk 4],
            [Identity, Identity, Identity, Identity, Blk 5]]"
  by code_simp

theorem chunked_equals_not_chunked_witness:
  "chunk_blocks (length [1, 2, 3, 4, 5 :: nat]) 2 [1, 2, 3, 4, 5 :: nat]
     = Inr [[Blk 1, Blk 2],
            [Identity, Identity, Blk 3, Blk 4],
            [Identity, Identity, Identity, Identity, Blk 5]]
   \<and> get_intermediate_layers_chunked (\<lambda>b x. Inr (10 * x + b)) Inr
        [[Blk 1, Blk 2],
         [Identity, Identity, Blk 3, Blk 4],
         [Identity, Identity, Identity, Identity, Blk 5]] (0 :: nat) (Layers [1, 4])
       = (Inr [12, 12345] :: error + nat list)
   \<and> get_intermediate_layers_not_chunked (\<lambda>b x. Inr (10 * x + b)) Inr
        [1, 2, 3, 4, 5 :: nat] (0 :: nat) (Layers [1, 4])
       = (Inr [12, 12345] :: error + nat list)
   \<and> [[Blk 1, Blk 2],
         [Identity, Identity, Blk 3, Blk 4],
         [Identity, Identity, Identity, Identity, Blk (5 :: nat)]] ! 1 ! 2 = Blk ([1, 2, 3, 4, 5 :: nat] ! 2)"
proof -
  let ?chunks = "[[Blk 1, Blk 2],
            [Identity, Identity, Blk 3, Blk 4],
            [Identity, Identity, Identity, Identity, Blk (5 :: nat)]]"
  let ?run = "\<lambda>(b :: nat) (x :: nat). (Inr (10 * x + b) :: error + nat)"
  have len: "length [1, 2, 3, 4, 5 :: nat] = 5" by simp
  have c: "chunk_blocks (length [1, 2, 3, 4, 5 :: nat]) 2 [1, 2, 3, 4, 5 :: nat] = Inr ?chunks"
    unfolding len by (rule chunk_blocks_5_2)
  have nc: "get_intermediate_layers_not_chunked ?run Inr [1, 2, 3, 4, 5 :: nat] (0 :: nat) (Layers [1, 4])
       = (Inr [12, 12345] :: error + nat list)"
    by (simp add: get_intermediate_layers_not_chunked_def)
  note t = chunked_equals_not_chunked [OF c, of ?run Inr 0 "Layers [1, 4]"]
  have p: "?chunks ! 1 ! 2 = Blk ([1, 2, 3, 4, 5 :: nat] ! 2)"
    using conjunct2 [OF t, rule_format, of 1 2] by simp
  have ch: "get_intermediate_layers_chunked ?run Inr ?chunks (0 :: nat) (Layers [1, 4])
       = (Inr [12, 12345] :: error + nat list)"
    using conjunct1 [OF t] nc by simp
  show ?thesis by (intro conjI) (rule c ch nc p)+
qed

section \<open>Patch embedding produces one token per patch\<close>

text \<open>
  Claim C7. For an image batch \<open>[b, c, h, w]\<close> with the configured channel count
  whose height and width are (positive) integer multiples of the patch size,
  \<open>PatchEmbed.forward\<close> with the flattening flag set returns
  \<open>(h / patch) * (w / patch)\<close> tokens of dimension \<open>embed_dim\<close>; if the height or
  the width is not a multiple of the patch size it fails its assertion.
\<close>

theorem PatchEmbed_forward_tokens:
  assumes "pe_patch_size self = (ph, pw)" and "0 < ph" and "0 < pw"
  shows "(pe_flatten_embedding self \<and> c = pe_in_chans self \<and> 0 < h \<and> 0 < w
            \<and> h mod ph = 0 \<and> w mod pw = 0
          \<longrightarrow> PatchEmbed_forward self [b, c, h, w]
                = Inr [b, (h div ph) * (w div pw), pe_embed_dim self])
       \<and> (h mod ph \<noteq> 0 \<or> w mod pw \<noteq> 0
          \<longrightarrow> PatchEmbed_forward self [b, c, h, w] = Inl AssertionError)"
proof (intro conjI impI)
  assume a: "pe_flatten_embedding self \<and> c = pe_in_chans self \<and> 0 < h \<and> 0 < w
            \<and> h mod ph = 0 \<and> w mod pw = 0"
  then have conv: "Conv2d_shape (pe_in_chans self) (pe_embed_dim self) (ph, pw) (ph, pw) [b, c, h, w]
      = Inr [b, pe_embed_dim self, h div ph, w div pw]"
    using Conv2d_shape_patches [of ph pw h w c "pe_embed_dim self" b] assms(2,3)
    by (simp add: mod_eq_0_iff_dvd)
  show "PatchEmbed_forward self [b, c, h, w] = Inr [b, (h div ph) * (w div pw), pe_embed_dim self]"
    using a assms conv
    by (simp add: PatchEmbed_forward_def flatten_shape_def transpose_shape_def LayerNorm_shape_def)
next
  assume "h mod ph \<noteq> 0 \<or> w mod pw \<noteq> 0"
  then show "PatchEmbed_forward self [b, c, h, w] = Inl AssertionError"
    using assms by (auto simp add: PatchEmbed_forward_def)
qed

theorem PatchEmbed_forward_tokens_witness:
  "PatchEmbed_init (Single 224) (Single 14) 3 384 False True
     = Inr \<lparr> pe_img_size = (224, 224), pe_patch_size = (14, 14),
              pe_patches_resolution = (16, 16), pe_num_patches = 256,
              pe_in_chans = 3, pe_embed_dim = 384,
              pe_flatten_embedding = True, pe_norm = False \<rparr>
   \<and> PatchEmbed_forward
        \<lparr> pe_img_size = (224, 224), pe_patch_size = (14, 14),
          pe_patches_resolution = (16, 16), pe_num_patches = 256,
          pe_in_chans = 3, pe_embed_dim = 384,
          pe_flatten_embedding = True, pe_norm = False \<rparr> [2, 3, 224, 448]
       = Inr [2, 512, 384]
   \<and> PatchEmbed_forward
        \<lparr> pe_img_size = (224, 224), pe_patch_size = (14, 14),
          pe_patches_resolution = (16, 16), pe_num_patches = 256,
          pe_in_chans = 3, pe_embed_dim = 384,
          pe_flatten_embedding = True, pe_norm = False \<rparr> [2, 3, 224, 450]
       = Inl AssertionError"
proof -
  let ?pe = "\<lparr> pe_img_size = (224, 224), pe_patch_size = (14, 14),
          pe_patches_resolution = (16, 16), pe_num_patches = 256,
          pe_in_chans = 3, pe_embed_dim = 384,
          pe_flatten_embedding = True, pe_norm = False \<rparr>"
  have p: "pe_patch_size ?pe = (14, 14)" by simp
  have i: "PatchEmbed_init (Single 224) (Single 14) 3 384 False True = Inr ?pe"
    by (simp add: PatchEmbed_init_def)
  have a: "PatchEmbed_forward ?pe [2, 3, 224, 448] = Inr [2, 512, 384]"
    using PatchEmbed_forward_tokens [OF p, of 3 224 448 2] by simp
  have b: "PatchEmbed_forward ?pe [2, 3, 224, 450] = Inl AssertionError"
    using PatchEmbed_forward_tokens [OF p, of 3 224 450 2] by simp
  show ?thesis using i a b by simp
qed

section \<open>The SwiGLU hidden width\<close>

lemma py_int_nonneg: "0 \<le> x \<Longrightarrow> py_int x = \<lfloor>x\<rfloor>"
  by (simp add: py_int_def)




section \<open>Resampling needs a square reference grid\<close>



end
